theory Spec2Isabelle
  imports Complex_Main
begin

section \<open>Affine matrices\<close>

text \<open>
  \<^verbatim>\<open>fmriprep/workflows/util.py\<close> compares two 4x4 affine matrices read from text
  files.  A matrix is kept row-major, as \<^verbatim>\<open>np.loadtxt\<close> returns it; the entries are
  real numbers, so rounding of the floating-point arithmetic is outside this model.
\<close>

type_synonym vec3 = "real \<times> real \<times> real"
type_synonym mat33 = "vec3 \<times> vec3 \<times> vec3"
type_synonym vec4 = "real \<times> real \<times> real \<times> real"
type_synonym mat44 = "vec4 \<times> vec4 \<times> vec4 \<times> vec4"

fun dot3 :: "vec3 \<Rightarrow> vec3 \<Rightarrow> real" where
  "dot3 (a, b, c) (x, y, z) = a * x + b * y + c * z"

fun dot4 :: "vec4 \<Rightarrow> vec4 \<Rightarrow> real" where
  "dot4 (a, b, c, d) (x, y, z, w) = a * x + b * y + c * z + d * w"

fun columns :: "mat44 \<Rightarrow> mat44" where
  "columns ((a0, a1, a2, a3), (b0, b1, b2, b3), (c0, c1, c2, c3), (d0, d1, d2, d3)) =
     ((a0, b0, c0, d0), (a1, b1, c1, d1), (a2, b2, c2, d2), (a3, b3, c3, d3))"

fun row_dot :: "vec4 \<Rightarrow> mat44 \<Rightarrow> vec4" where
  "row_dot r (c0, c1, c2, c3) = (dot4 r c0, dot4 r c1, dot4 r c2, dot4 r c3)"

text \<open>\<^verbatim>\<open>A.dot(B)\<close> for two 4x4 arrays: entry (i, j) is row i of A times column j of B.\<close>

fun dot :: "mat44 \<Rightarrow> mat44 \<Rightarrow> mat44" where
  "dot (r0, r1, r2, r3) B =
     (row_dot r0 (columns B), row_dot r1 (columns B), row_dot r2 (columns B), row_dot r3 (columns B))"

definition eye3 :: mat33 where
  "eye3 = ((1, 0, 0), (0, 1, 0), (0, 0, 1))"

definition eye4 :: mat44 where
  "eye4 = ((1, 0, 0, 0), (0, 1, 0, 0), (0, 0, 1, 0), (0, 0, 0, 1))"

text \<open>The affine matrix with linear block \<open>L\<close> and translation column \<open>t\<close>.\<close>

fun affine :: "mat33 \<Rightarrow> vec3 \<Rightarrow> mat44" where
  "affine ((a0, a1, a2), (b0, b1, b2), (c0, c1, c2)) (x, y, z) =
     ((a0, a1, a2, x), (b0, b1, b2, y), (c0, c1, c2, z), (0, 0, 0, 1))"

definition translation :: "vec3 \<Rightarrow> mat44" where
  "translation t = affine eye3 t"

fun diag3 :: "vec3 \<Rightarrow> mat33" where
  "diag3 (a, b, c) = ((a, 0, 0), (0, b, 0), (0, 0, c))"

section \<open>Exceptions\<close>

text \<open>
  \<open>lib_error\<close>: the exception classes of the numeric libraries (numpy, transforms3d)
  that \<^verbatim>\<open>compare_xforms\<close> calls.  \<open>error\<close>: what a caller of the repository's code can
  see.  \<^verbatim>\<open>util.py\<close> defines no exception class and has no \<^verbatim>\<open>raise\<close>: an exception of a
  library call propagates unchanged, as \<open>LibraryError\<close>.  \<open>IndexError\<close> and
  \<open>MissingInput\<close> belong to the workflow nodes.
\<close>

datatype lib_error = OSError | ValueError | LinAlgError

datatype error = LibraryError lib_error | IndexError | MissingInput

section \<open>The numeric libraries\<close>

text \<open>
  \<^verbatim>\<open>np.loadtxt\<close>, \<^verbatim>\<open>np.linalg.pinv\<close>, \<^verbatim>\<open>transforms3d.affines.decompose44\<close> and
  \<^verbatim>\<open>transforms3d.axangles.mat2axangle\<close> are imported, not defined, by \<^verbatim>\<open>util.py\<close>.
  They are parameters of the model: a record of functions over the file type \<open>'f\<close>,
  each returning its result or the exception it raised.  \<open>format_g\<close> is the \<^verbatim>\<open>{:.Ng}\<close>
  conversion of \<^verbatim>\<open>str.format\<close>, with the precision \<open>N\<close> as first argument.
  \<open>loadtxt\<close> is typed to 4x4 arrays; a file of another shape counts as its failure.
\<close>

record 'f numlib =
  loadtxt :: "'f \<Rightarrow> lib_error + mat44"
  pinv :: "mat44 \<Rightarrow> lib_error + mat44"
  decompose44 :: "mat44 \<Rightarrow> lib_error + (vec3 \<times> mat33 \<times> vec3 \<times> vec3)"
  mat2axangle :: "mat33 \<Rightarrow> lib_error + (vec3 \<times> real)"
  format_g :: "nat \<Rightarrow> real \<Rightarrow> string"

section \<open>compare_xforms\<close>

text \<open>
  Lines 34 to 39 and 45 to 47 of \<^verbatim>\<open>compare_xforms\<close>: the two matrices are loaded
  (the fallback first), the relative transform \<^verbatim>\<open>comp = mat2.dot(np.linalg.pinv(mat1))\<close>
  is decomposed, and the three metrics are computed:
  \<^verbatim>\<open>shift_magnitude = np.sqrt(trans.dot(trans))\<close>,
  \<^verbatim>\<open>rot = mat2axangle(rotation_matrix)[1]\<close>,
  \<^verbatim>\<open>max_scale = np.max(np.abs(scales))\<close>.
\<close>

fun max_abs :: "vec3 \<Rightarrow> real" where
  "max_abs (sx, sy, sz) = max (max \<bar>sx\<bar> \<bar>sy\<bar>) \<bar>sz\<bar>"

definition xform_metrics :: "'f numlib \<Rightarrow> 'f \<Rightarrow> 'f \<Rightarrow> lib_error + (real \<times> real \<times> real)" where
  "xform_metrics lib test_mat fallback_mat =
     (case loadtxt lib fallback_mat of Inl e \<Rightarrow> Inl e | Inr mat1 \<Rightarrow>
      case loadtxt lib test_mat of Inl e \<Rightarrow> Inl e | Inr mat2 \<Rightarrow>
      case pinv lib mat1 of Inl e \<Rightarrow> Inl e | Inr mat1_inv \<Rightarrow>
      case decompose44 lib (dot mat2 mat1_inv) of Inl e \<Rightarrow> Inl e
      | Inr (translation_vec, rotation_matrix, scales, shears) \<Rightarrow>
      case mat2axangle lib rotation_matrix of Inl e \<Rightarrow> Inl e
      | Inr (direction, angle) \<Rightarrow>
          Inr (sqrt (dot3 translation_vec translation_vec), angle, max_abs scales))"

text \<open>
  Lines 41 to 43 and 49 to 52: the thresholds, the \<^verbatim>\<open>print\<close> of the three metrics and
  the verdict.  Standard output is a list of the strings printed so far, passed in and
  returned; an exception leaves it as it was.  The degree sign of the message is its
  two UTF-8 bytes.  Writing to standard output is taken to succeed: a stream that
  cannot encode the degree sign makes the real \<^verbatim>\<open>print\<close> raise before the verdict is
  returned, and that failure is not part of this model.
\<close>

definition shift_thresh :: real where "shift_thresh = 5"
definition rot_thresh :: real where "rot_thresh = pi / 36"
definition scale_thresh :: real where "scale_thresh = 11 / 10"

definition metrics_message :: "'f numlib \<Rightarrow> real \<Rightarrow> real \<Rightarrow> real \<Rightarrow> string" where
  "metrics_message lib shift_magnitude rot max_scale =
     ''Shift: '' @ format_g lib 1 shift_magnitude @ ''mm'' @ [CHR 0x0A] @
     ''Rotation: '' @ format_g lib 1 (rot * 180 / pi) @ [CHR 0xC2, CHR 0xB0, CHR 0x0A] @
     ''Scale: '' @ format_g lib 2 max_scale"

definition compare_xforms ::
  "'f numlib \<Rightarrow> 'f \<Rightarrow> 'f \<Rightarrow> string list \<Rightarrow> (error + bool) \<times> string list" where
  "compare_xforms lib test_mat fallback_mat stdout =
     (case xform_metrics lib test_mat fallback_mat of
        Inl e \<Rightarrow> (Inl (LibraryError e), stdout)
      | Inr (shift_magnitude, rot, max_scale) \<Rightarrow>
          (Inr (shift_magnitude > shift_thresh \<or> rot > rot_thresh \<or> max_scale > scale_thresh),
           stdout @ [metrics_message lib shift_magnitude rot max_scale]))"

section \<open>Workflows\<close>

text \<open>
  \<^verbatim>\<open>init_bbreg_wf\<close> and \<^verbatim>\<open>init_fsl_bbr_wf\<close> build a nipype workflow: nodes, each with an
  interface, and connections from an output field of one node to an input field of
  another.  The nodes carry the names of the Python variables.
\<close>

datatype node =
    inputnode | outputnode
  | mri_coreg | bbregister | lta_concat | lta2fsl_fwd | lta2fsl_inv
  | wm_mask | flt_bbr_init | flt_bbr | invt_bbr
  | fsl2itk_fwd | fsl2itk_inv
  | transforms | reports | compare_transforms | select_transform | select_report
  | lta_convert

datatype arg = B bool | I int | R real | S string | L "arg list"

text \<open>
  The interfaces the two workflows use.  \<open>External\<close> is a wrapper of a command-line tool
  (or a function defined elsewhere), with the keyword arguments it was built with; the
  engine's settings (\<^verbatim>\<open>n_procs\<close>, \<^verbatim>\<open>mem_gb\<close>, \<^verbatim>\<open>run_without_submitting\<close>) only schedule
  the node and are left out.
\<close>

datatype interface =
    IdentityInterface "string list"
  | Merge nat
  | Select
  | Function_compare_xforms
  | External string "(string \<times> arg) list"

type_synonym connection = "node \<times> node \<times> (string \<times> string) list"

record workflow =
  interfaces :: "(node \<times> interface) list"
  connections :: "connection list"

text \<open>
  What travels along a connection.  \<open>Given n f\<close> is the value the caller set on the
  unconnected field \<open>f\<close> of node \<open>n\<close>; \<open>Produced n f ins\<close> is the output field \<open>f\<close> of
  the external tool at node \<open>n\<close>, run on the inputs \<open>ins\<close> (a file the tool wrote);
  \<open>VBool\<close> is the verdict of \<^verbatim>\<open>compare_xforms\<close>; \<open>VList\<close> is a Python list.
\<close>

datatype val =
    Given node string
  | Produced node string "(string \<times> val) list"
  | VBool bool
  | VList "val list"

text \<open>The node that produced a file.\<close>

fun origin :: "val \<Rightarrow> node option" where
  "origin (Produced n f ins) = Some n"
| "origin v = None"

text \<open>
  The inputs of node \<open>n\<close>: for every \<^verbatim>\<open>(src, dst, [(src_field, dst_field), ...])\<close> of
  \<^verbatim>\<open>workflow.connect\<close> with \<open>dst = n\<close>, the destination field and its source.
\<close>

fun incoming :: "connection list \<Rightarrow> node \<Rightarrow> (string \<times> node \<times> string) list" where
  "incoming [] n = []"
| "incoming ((src, dst, pairs) # cs) n =
     (if dst = n then map (\<lambda>(sf, df). (df, src, sf)) pairs else []) @ incoming cs n"

text \<open>
  A node runs once all its inputs are there; the first input that failed, or is not yet
  computed (\<open>None\<close>), decides.
\<close>

fun gather :: "(string \<times> (error + val) option) list \<Rightarrow> (error + (string \<times> val) list) option" where
  "gather [] = Some (Inr [])"
| "gather ((f, r) # rs) =
     (case r of
        None \<Rightarrow> None
      | Some (Inl e) \<Rightarrow> Some (Inl e)
      | Some (Inr v) \<Rightarrow>
          (case gather rs of
             None \<Rightarrow> None
           | Some (Inl e) \<Rightarrow> Some (Inl e)
           | Some (Inr vs) \<Rightarrow> Some (Inr ((f, v) # vs))))"

text \<open>The input names \<^verbatim>\<open>in1\<close>, ..., \<^verbatim>\<open>inN\<close> of \<^verbatim>\<open>Merge(N)\<close>, for \<open>N\<close> up to 9.\<close>

fun in_names :: "nat \<Rightarrow> string list" where
  "in_names 0 = []"
| "in_names (Suc n) = in_names n @ [''in'' @ [''123456789'' ! n]]"

text \<open>
  Modelled from the spec: nipype's \<^verbatim>\<open>Merge\<close> and \<^verbatim>\<open>Select\<close> interfaces are not part of
  this repository.  \<^verbatim>\<open>Merge(2)\<close> builds the ordered candidate list, \<^verbatim>\<open>in1\<close> at index 0 and
  \<^verbatim>\<open>in2\<close> at index 1.  \<^verbatim>\<open>Select\<close> returns \<^verbatim>\<open>inlist[index]\<close>, where a boolean index counts
  as \<^verbatim>\<open>index = 1 if reject_refined else 0\<close>.
\<close>

fun merge_out :: "nat \<Rightarrow> (string \<times> val) list \<Rightarrow> val" where
  "merge_out n ins = VList (concat (map (\<lambda>f. case map_of ins f of None \<Rightarrow> [] | Some v \<Rightarrow> [v]) (in_names n)))"

fun select_out :: "val \<Rightarrow> val \<Rightarrow> error + val" where
  "select_out (VList xs) (VBool b) =
     (let index = (if b then 1 else 0) in if index < length xs then Inr (xs ! index) else Inl IndexError)"
| "select_out inlist index = Inl MissingInput"

text \<open>
  Running one node on its gathered inputs and reading its output field \<open>f\<close>.  An
  \<^verbatim>\<open>IdentityInterface\<close> hands each field through; \<^verbatim>\<open>Function(function=compare_xforms)\<close>
  calls \<open>compare_xforms\<close> on its two inputs and returns the verdict as \<^verbatim>\<open>out\<close>.
\<close>

fun run_interface ::
  "val numlib \<Rightarrow> node \<Rightarrow> interface \<Rightarrow> (string \<times> val) list \<Rightarrow> string \<Rightarrow> error + val" where
  "run_interface lib n (IdentityInterface names) ins f =
     (if f \<in> set names
      then (case map_of ins f of None \<Rightarrow> Inr (Given n f) | Some v \<Rightarrow> Inr v)
      else Inl MissingInput)"
| "run_interface lib n (Merge k) ins f = Inr (merge_out k ins)"
| "run_interface lib n Select ins f =
     (case (map_of ins ''inlist'', map_of ins ''index'') of
        (Some inlist, Some index) \<Rightarrow> select_out inlist index
      | _ \<Rightarrow> Inl MissingInput)"
| "run_interface lib n Function_compare_xforms ins f =
     (case (map_of ins ''test_mat'', map_of ins ''fallback_mat'') of
        (Some test_mat, Some fallback_mat) \<Rightarrow>
          (case fst (compare_xforms lib test_mat fallback_mat []) of
             Inl e \<Rightarrow> Inl e
           | Inr b \<Rightarrow> Inr (VBool b))
      | _ \<Rightarrow> Inl MissingInput)"
| "run_interface lib n (External tool args) ins f = Inr (Produced n f ins)"

text \<open>
  The value of output field \<open>f\<close> of node \<open>n\<close>.  The recursion follows the connections
  backwards; \<open>fuel\<close> bounds its depth, and \<open>None\<close> says that the fuel ran out.
\<close>

fun port_val :: "workflow \<Rightarrow> val numlib \<Rightarrow> nat \<Rightarrow> node \<Rightarrow> string \<Rightarrow> (error + val) option" where
  "port_val flow lib 0 n f = None"
| "port_val flow lib (Suc fuel) n f =
     (case map_of (interfaces flow) n of
        None \<Rightarrow> Some (Inl MissingInput)
      | Some i \<Rightarrow>
          (case gather (map (\<lambda>(df, src, sf). (df, port_val flow lib fuel src sf))
                            (incoming (connections flow) n)) of
             None \<Rightarrow> None
           | Some (Inl e) \<Rightarrow> Some (Inl e)
           | Some (Inr ins) \<Rightarrow> Some (run_interface lib n i ins f)))"

section \<open>The two registration workflows\<close>

text \<open>\<^verbatim>\<open>init_bbreg_wf(bold2t1w_dof, omp_nthreads)\<close>: FreeSurfer's bbregister, with mri_coreg as fallback.\<close>

definition init_bbreg_wf :: "int \<Rightarrow> int \<Rightarrow> workflow" where
  "init_bbreg_wf bold2t1w_dof omp_nthreads = \<lparr>
     interfaces = [
       (inputnode, IdentityInterface [
          ''in_file'',
          ''t1_2_fsnative_reverse_transform'', ''subjects_dir'', ''subject_id'',
          ''t1_seg'', ''t1_brain'']),
       (outputnode, IdentityInterface [
          ''itk_bold_to_t1'', ''itk_t1_to_bold'', ''out_report'', ''fallback'']),
       (mri_coreg, External ''MRICoregRPT'' [
          (''dof'', I bold2t1w_dof), (''sep'', L [I 4]), (''ftol'', R (1 / 10000)),
          (''linmintol'', R (1 / 100)), (''num_threads'', I omp_nthreads),
          (''generate_report'', B True)]),
       (bbregister, External ''BBRegisterRPT'' [
          (''dof'', I bold2t1w_dof), (''contrast_type'', S ''t2''), (''registered_file'', B True),
          (''out_lta_file'', B True), (''generate_report'', B True)]),
       (lta_concat, External ''ConcatenateLTA'' [(''out_file'', S ''out.lta'')]),
       (lta2fsl_fwd, External ''LTAConvert'' [(''out_fsl'', B True)]),
       (lta2fsl_inv, External ''LTAConvert'' [(''out_fsl'', B True), (''invert'', B True)]),
       (fsl2itk_fwd, External ''C3dAffineTool'' [(''fsl2ras'', B True), (''itk_transform'', B True)]),
       (fsl2itk_inv, External ''C3dAffineTool'' [(''fsl2ras'', B True), (''itk_transform'', B True)]),
       (transforms, Merge 2),
       (reports, Merge 2),
       (compare_transforms, Function_compare_xforms),
       (select_transform, Select),
       (select_report, Select),
       (lta_convert, External ''LTAConvert'' [(''out_lta'', B True), (''iterfield'', L [S ''in_lta''])])],
     connections = [
       (inputnode, mri_coreg, [(''subjects_dir'', ''subjects_dir''),
                               (''subject_id'', ''subject_id''),
                               (''in_file'', ''source_file'')]),
       (inputnode, bbregister, [(''subjects_dir'', ''subjects_dir''),
                                (''subject_id'', ''subject_id''),
                                (''in_file'', ''source_file'')]),
       (mri_coreg, bbregister, [(''out_lta_file'', ''init_reg_file'')]),
       (inputnode, lta_concat, [(''t1_2_fsnative_reverse_transform'', ''in_lta2'')]),
       (lta_concat, lta2fsl_fwd, [(''out_file'', ''in_lta'')]),
       (lta_concat, lta2fsl_inv, [(''out_file'', ''in_lta'')]),
       (inputnode, fsl2itk_fwd, [(''t1_brain'', ''reference_file''),
                                 (''in_file'', ''source_file'')]),
       (inputnode, fsl2itk_inv, [(''in_file'', ''reference_file''),
                                 (''t1_brain'', ''source_file'')]),
       (lta2fsl_fwd, fsl2itk_fwd, [(''out_fsl'', ''transform_file'')]),
       (lta2fsl_inv, fsl2itk_inv, [(''out_fsl'', ''transform_file'')]),
       (fsl2itk_fwd, outputnode, [(''itk_transform'', ''itk_bold_to_t1'')]),
       (fsl2itk_inv, outputnode, [(''itk_transform'', ''itk_t1_to_bold'')]),
       (bbregister, transforms, [(''out_lta_file'', ''in1'')]),
       (mri_coreg, transforms, [(''out_lta_file'', ''in2'')]),
       (bbregister, compare_transforms, [(''out_lta_file'', ''test_mat'')]),
       (mri_coreg, compare_transforms, [(''out_lta_file'', ''fallback_mat'')]),
       (compare_transforms, outputnode, [(''out'', ''fallback'')]),
       (transforms, select_transform, [(''out'', ''inlist'')]),
       (compare_transforms, select_transform, [(''out'', ''index'')]),
       (select_transform, lta_concat, [(''out'', ''in_lta1'')]),
       (bbregister, reports, [(''out_report'', ''in1'')]),
       (mri_coreg, reports, [(''out_report'', ''in2'')]),
       (reports, select_report, [(''out'', ''inlist'')]),
       (compare_transforms, select_report, [(''out'', ''index'')]),
       (select_report, outputnode, [(''out'', ''out_report'')]),
       (transforms, lta_convert, [(''out'', ''in_lta'')])] \<rparr>"

text \<open>
  \<^verbatim>\<open>init_fsl_bbr_wf(bold2t1w_dof)\<close>: FSL's FLIRT with the BBR cost function, with a rigid
  FLIRT registration as fallback.  \<open>fsldir\<close> is the value of \<^verbatim>\<open>os.getenv('FSLDIR')\<close>; the
  schedule file is kept as the two components that \<^verbatim>\<open>op.join\<close> joins.
\<close>

definition init_fsl_bbr_wf :: "int \<Rightarrow> string \<Rightarrow> workflow" where
  "init_fsl_bbr_wf bold2t1w_dof fsldir = \<lparr>
     interfaces = [
       (inputnode, IdentityInterface [
          ''in_file'',
          ''t1_2_fsnative_reverse_transform'', ''subjects_dir'', ''subject_id'',
          ''t1_seg'', ''t1_brain'']),
       (outputnode, IdentityInterface [
          ''itk_bold_to_t1'', ''itk_t1_to_bold'', ''out_report'', ''fallback'']),
       (wm_mask, External ''extract_wm'' []),
       (flt_bbr_init, External ''FLIRTRPT'' [(''dof'', I 6), (''generate_report'', B True)]),
       (flt_bbr, External ''FLIRTRPT'' [
          (''cost_func'', S ''bbr''), (''dof'', I bold2t1w_dof), (''generate_report'', B True),
          (''schedule'', L [S fsldir, S ''etc/flirtsch/bbr.sch''])]),
       (invt_bbr, External ''ConvertXFM'' [(''invert_xfm'', B True)]),
       (fsl2itk_fwd, External ''C3dAffineTool'' [(''fsl2ras'', B True), (''itk_transform'', B True)]),
       (fsl2itk_inv, External ''C3dAffineTool'' [(''fsl2ras'', B True), (''itk_transform'', B True)]),
       (transforms, Merge 2),
       (reports, Merge 2),
       (compare_transforms, Function_compare_xforms),
       (select_transform, Select),
       (select_report, Select),
       (lta_convert, External ''LTAConvert'' [(''out_lta'', B True), (''iterfield'', L [S ''in_fsl''])])],
     connections = [
       (inputnode, wm_mask, [(''t1_seg'', ''in_seg'')]),
       (inputnode, flt_bbr_init, [(''in_file'', ''in_file''),
                                  (''t1_brain'', ''reference'')]),
       (flt_bbr_init, flt_bbr, [(''out_matrix_file'', ''in_matrix_file'')]),
       (inputnode, flt_bbr, [(''in_file'', ''in_file''),
                             (''t1_brain'', ''reference'')]),
       (wm_mask, flt_bbr, [(''out'', ''wm_seg'')]),
       (inputnode, fsl2itk_fwd, [(''t1_brain'', ''reference_file''),
                                 (''in_file'', ''source_file'')]),
       (inputnode, fsl2itk_inv, [(''in_file'', ''reference_file''),
                                 (''t1_brain'', ''source_file'')]),
       (flt_bbr, compare_transforms, [(''out_matrix_file'', ''test_mat'')]),
       (flt_bbr_init, compare_transforms, [(''out_matrix_file'', ''fallback_mat'')]),
       (compare_transforms, outputnode, [(''out'', ''fallback'')]),
       (flt_bbr, transforms, [(''out_matrix_file'', ''in1'')]),
       (flt_bbr_init, transforms, [(''out_matrix_file'', ''in2'')]),
       (transforms, select_transform, [(''out'', ''inlist'')]),
       (compare_transforms, select_transform, [(''out'', ''index'')]),
       (select_transform, invt_bbr, [(''out'', ''in_file'')]),
       (select_transform, fsl2itk_fwd, [(''out'', ''transform_file'')]),
       (invt_bbr, fsl2itk_inv, [(''out_file'', ''transform_file'')]),
       (fsl2itk_fwd, outputnode, [(''itk_transform'', ''itk_bold_to_t1'')]),
       (fsl2itk_inv, outputnode, [(''itk_transform'', ''itk_t1_to_bold'')]),
       (flt_bbr, reports, [(''out_report'', ''in1'')]),
       (flt_bbr_init, reports, [(''out_report'', ''in2'')]),
       (reports, select_report, [(''out'', ''inlist'')]),
       (compare_transforms, select_report, [(''out'', ''index'')]),
       (select_report, outputnode, [(''out'', ''out_report'')]),
       (transforms, lta_convert, [(''out'', ''in_fsl'')]),
       (inputnode, lta_convert, [(''in_file'', ''source_file''),
                                 (''t1_brain'', ''target_file'')])] \<rparr>"

text \<open>
  Running a workflow: the depth of an acyclic graph is at most its number of nodes, so
  that much fuel reaches every node.
\<close>

definition result :: "workflow \<Rightarrow> val numlib \<Rightarrow> node \<Rightarrow> string \<Rightarrow> (error + val) option" where
  "result flow lib n f = port_val flow lib (length (interfaces flow)) n f"

text \<open>The source connected to input field \<open>f\<close> of node \<open>n\<close>.\<close>

definition source :: "workflow \<Rightarrow> node \<Rightarrow> string \<Rightarrow> (node \<times> string) option" where
  "source flow n f = map_of (incoming (connections flow) n) f"

section \<open>The candidates of a run\<close>

text \<open>
  What the two registration nodes of each workflow write, as the connections into them
  determine it: the fallback registration runs on the workflow's inputs, the refined
  one on the same inputs and on the fallback's transform as its starting point.  The
  verdict of a run is \<open>compare_xforms\<close> on the transforms of the two.
\<close>

definition bbreg_fallback :: "string \<Rightarrow> val" where
  "bbreg_fallback f = Produced mri_coreg f [
     (''subjects_dir'', Given inputnode ''subjects_dir''),
     (''subject_id'', Given inputnode ''subject_id''),
     (''source_file'', Given inputnode ''in_file'')]"

definition bbreg_refined :: "string \<Rightarrow> val" where
  "bbreg_refined f = Produced bbregister f [
     (''subjects_dir'', Given inputnode ''subjects_dir''),
     (''subject_id'', Given inputnode ''subject_id''),
     (''source_file'', Given inputnode ''in_file''),
     (''init_reg_file'', bbreg_fallback ''out_lta_file'')]"

definition bbreg_verdict :: "val numlib \<Rightarrow> error + bool" where
  "bbreg_verdict lib =
     fst (compare_xforms lib (bbreg_refined ''out_lta_file'') (bbreg_fallback ''out_lta_file'') [])"

definition fsl_fallback :: "string \<Rightarrow> val" where
  "fsl_fallback f = Produced flt_bbr_init f [
     (''in_file'', Given inputnode ''in_file''),
     (''reference'', Given inputnode ''t1_brain'')]"

definition fsl_refined :: "string \<Rightarrow> val" where
  "fsl_refined f = Produced flt_bbr f [
     (''in_matrix_file'', fsl_fallback ''out_matrix_file''),
     (''in_file'', Given inputnode ''in_file''),
     (''reference'', Given inputnode ''t1_brain''),
     (''wm_seg'', Produced wm_mask ''out'' [(''in_seg'', Given inputnode ''t1_seg'')])]"

definition fsl_verdict :: "val numlib \<Rightarrow> error + bool" where
  "fsl_verdict lib =
     fst (compare_xforms lib (fsl_refined ''out_matrix_file'') (fsl_fallback ''out_matrix_file'') [])"

section \<open>The relative transform in the specification's words\<close>

text \<open>
  The specification: ``given matrix1 (fallback) and matrix2 (refined), compute
  comp = matrix2 . pseudo_inverse(matrix1)''.
\<close>

definition spec_relative_transform :: "'f numlib \<Rightarrow> mat44 \<Rightarrow> mat44 \<Rightarrow> lib_error + mat44" where
  "spec_relative_transform lib refined_matrix fallback_matrix =
     (case pinv lib fallback_matrix of
        Inl e \<Rightarrow> Inl e
      | Inr pseudo_inverse \<Rightarrow> Inr (dot refined_matrix pseudo_inverse))"

section \<open>A library instance for concrete runs\<close>

text \<open>
  To run the model on concrete matrices the library functions need values.  This
  instance is defined on the matrices with a diagonal linear block of nonzero (for the
  decomposition: positive) entries and any translation, where it is the inverse, the
  decomposition and the rotation angle that the real libraries compute up to rounding.
  It is used on such matrices only.  Outside them it answers with an error value, which
  is not what the real libraries do there (\<^verbatim>\<open>np.linalg.pinv\<close> returns a matrix for a
  singular one, \<^verbatim>\<open>decompose44\<close> returns non-finite numbers for a zero column and a
  negative scale for a reflection), so nothing is concluded from it there.  It does not
  format numbers.
\<close>

fun axis_pinv :: "mat44 \<Rightarrow> lib_error + mat44" where
  "axis_pinv ((a, a1, a2, x), (b0, b, b2, y), (c0, c1, c, z), bottom) =
     (if a1 = 0 \<and> a2 = 0 \<and> b0 = 0 \<and> b2 = 0 \<and> c0 = 0 \<and> c1 = 0 \<and> bottom = (0, 0, 0, 1)
         \<and> a \<noteq> 0 \<and> b \<noteq> 0 \<and> c \<noteq> 0
      then Inr (affine (diag3 (1 / a, 1 / b, 1 / c)) (- x / a, - y / b, - z / c))
      else Inl LinAlgError)"

fun axis_decompose44 :: "mat44 \<Rightarrow> lib_error + (vec3 \<times> mat33 \<times> vec3 \<times> vec3)" where
  "axis_decompose44 ((a, a1, a2, x), (b0, b, b2, y), (c0, c1, c, z), bottom) =
     (if a1 = 0 \<and> a2 = 0 \<and> b0 = 0 \<and> b2 = 0 \<and> c0 = 0 \<and> c1 = 0 \<and> 0 < a \<and> 0 < b \<and> 0 < c
      then Inr ((x, y, z), eye3, (a, b, c), (0, 0, 0))
      else Inl LinAlgError)"

definition axis_mat2axangle :: "mat33 \<Rightarrow> lib_error + (vec3 \<times> real)" where
  "axis_mat2axangle m = (if m = eye3 then Inr ((0, 0, 1), 0) else Inl ValueError)"

definition axis_lib :: "('f \<Rightarrow> lib_error + mat44) \<Rightarrow> 'f numlib" where
  "axis_lib files = \<lparr> loadtxt = files, pinv = axis_pinv, decompose44 = axis_decompose44,
     mat2axangle = axis_mat2axangle, format_g = (\<lambda>precision x. ''?'') \<rparr>"

text \<open>
  Files for a run of a workflow: what the refined registration (bbregister, or FLIRT
  with the BBR cost) wrote holds \<open>refined_matrix\<close>, any other file \<open>fallback_matrix\<close>.
\<close>

definition candidate_files :: "mat44 \<Rightarrow> mat44 \<Rightarrow> val \<Rightarrow> lib_error + mat44" where
  "candidate_files refined_matrix fallback_matrix v =
     (if origin v = Some bbregister \<or> origin v = Some flt_bbr
      then Inr refined_matrix else Inr fallback_matrix)"

section \<open>Properties of compare_xforms\<close>

lemma row_dot_eye4: "row_dot r (columns eye4) = r"
  by (cases r rule: prod_cases4) (simp add: eye4_def)

lemma dot_eye4_right: "dot m eye4 = m"
  by (cases m rule: prod_cases4) (simp add: row_dot_eye4)

lemma gate_verdict:
  "xform_metrics lib test_mat fallback_mat = Inr (s, r, m) \<Longrightarrow>
   fst (compare_xforms lib test_mat fallback_mat out) = Inr (5 < s \<or> pi / 36 < r \<or> 11 / 10 < m)"
  by (simp add: compare_xforms_def shift_thresh_def rot_thresh_def scale_thresh_def)

lemma metrics_of_calls:
  "loadtxt lib fallback_mat = Inr mf \<Longrightarrow> loadtxt lib test_mat = Inr mt \<Longrightarrow>
   pinv lib mf = Inr p \<Longrightarrow> decompose44 lib (dot mt p) = Inr (t, rm, z, sh) \<Longrightarrow>
   mat2axangle lib rm = Inr (d, a) \<Longrightarrow>
   xform_metrics lib test_mat fallback_mat = Inr (sqrt (dot3 t t), a, max_abs z)"
  by (simp add: xform_metrics_def)

text \<open>
  Claim C2.  The verdict is \<open>True\<close> exactly when the shift exceeds 5 mm, or the rotation
  angle exceeds \<open>pi / 36\<close>, or the largest scale exceeds 1.1, each comparison strict.
  With the identity as fallback matrix and a pure translation \<open>t\<close> as refined matrix,
  where the libraries return the identity as pseudo-inverse of the identity, the
  translation \<open>t\<close> with identity rotation and unit scales as decomposition, and the angle
  0 for the identity rotation: a translation of magnitude exactly 5 is accepted, one of
  magnitude 5.0001 is rejected.
\<close>

theorem gate_strict_thresholds:
  "(xform_metrics lib test_mat fallback_mat = Inr (shift_magnitude, rot, max_scale) \<longrightarrow>
      fst (compare_xforms lib test_mat fallback_mat out) =
        Inr (shift_magnitude > 5 \<or> rot > pi / 36 \<or> max_scale > 11 / 10)) \<and>
   (loadtxt lib fallback_mat = Inr eye4 \<and> loadtxt lib test_mat = Inr (translation t) \<and>
    pinv lib eye4 = Inr eye4 \<and> decompose44 lib (translation t) = Inr (t, eye3, (1, 1, 1), sh) \<and>
    mat2axangle lib eye3 = Inr (d, 0) \<longrightarrow>
      (sqrt (dot3 t t) = 5 \<longrightarrow> fst (compare_xforms lib test_mat fallback_mat out) = Inr False) \<and>
      (sqrt (dot3 t t) = 50001 / 10000 \<longrightarrow> fst (compare_xforms lib test_mat fallback_mat out) = Inr True))"
proof (intro conjI impI)
  assume "xform_metrics lib test_mat fallback_mat = Inr (shift_magnitude, rot, max_scale)"
  then show "fst (compare_xforms lib test_mat fallback_mat out) =
        Inr (shift_magnitude > 5 \<or> rot > pi / 36 \<or> max_scale > 11 / 10)"
    by (rule gate_verdict)
next
  assume h: "loadtxt lib fallback_mat = Inr eye4 \<and> loadtxt lib test_mat = Inr (translation t) \<and>
    pinv lib eye4 = Inr eye4 \<and> decompose44 lib (translation t) = Inr (t, eye3, (1, 1, 1), sh) \<and>
    mat2axangle lib eye3 = Inr (d, 0)"
  have m: "xform_metrics lib test_mat fallback_mat = Inr (sqrt (dot3 t t), 0, max_abs (1, 1, 1))"
    using h metrics_of_calls[of lib fallback_mat eye4 test_mat "translation t" eye4 t eye3 "(1, 1, 1)" sh d 0]
    by (simp add: dot_eye4_right)
  { assume "sqrt (dot3 t t) = 5"
    with m show "fst (compare_xforms lib test_mat fallback_mat out) = Inr False"
      by (simp add: gate_verdict[OF m]) }
  { assume "sqrt (dot3 t t) = 50001 / 10000"
    with m show "fst (compare_xforms lib test_mat fallback_mat out) = Inr True"
      by (simp add: gate_verdict[OF m]) }
qed

theorem gate_strict_thresholds_witness:
  "fst (compare_xforms (axis_lib Inr) (translation (3, 4, 0)) eye4 []) = Inr False \<and>
   fst (compare_xforms (axis_lib Inr) (translation (50001 / 10000, 0, 0)) eye4 []) = Inr True"
proof -
  have "sqrt (2500100001 / 100000000) = 50001 / 10000"
    by (rule real_sqrt_unique) (simp_all add: power2_eq_square)
  then show ?thesis
    using gate_strict_thresholds[of "axis_lib Inr" "translation (3, 4, 0)" eye4 5 0 1 "[]" "(3, 4, 0)" "(0,0,0)" "(0,0,1)"]
      gate_strict_thresholds[of "axis_lib Inr" "translation (50001 / 10000, 0, 0)" eye4 "50001 / 10000" 0 1 "[]" "(50001 / 10000, 0, 0)" "(0,0,0)" "(0,0,1)"]
    by (simp add: axis_lib_def translation_def eye3_def eye4_def axis_mat2axangle_def xform_metrics_def)
qed

text \<open>
  Claim C3.  Comparing an invertible matrix \<open>m\<close> (with inverse \<open>n\<close>) against itself:
  where the pseudo-inverse of \<open>m\<close> is its inverse, the identity decomposes into zero
  translation, identity rotation, unit scales and zero shears, and the identity rotation
  has angle 0, the metrics are shift 0, rotation 0 and scale 1, and the refined
  registration is accepted.  The metrics are exact here, the numbers being reals.
\<close>

theorem identity_property:
  assumes "loadtxt lib test_mat = Inr m" and "loadtxt lib fallback_mat = Inr m"
    and "dot m n = eye4" and "dot n m = eye4" and "pinv lib m = Inr n"
    and "decompose44 lib eye4 = Inr ((0, 0, 0), eye3, (1, 1, 1), (0, 0, 0))"
    and "mat2axangle lib eye3 = Inr (d, 0)"
  shows "xform_metrics lib test_mat fallback_mat = Inr (0, 0, 1) \<and>
         fst (compare_xforms lib test_mat fallback_mat out) = Inr False"
proof -
  have m: "xform_metrics lib test_mat fallback_mat = Inr (0, 0, 1)"
    using assms metrics_of_calls[of lib fallback_mat m test_mat m n "(0, 0, 0)" eye3 "(1, 1, 1)" "(0, 0, 0)" d 0]
    by simp
  show ?thesis
    using m gate_verdict[OF m, of out] by simp
qed

theorem identity_property_witness:
  "xform_metrics (axis_lib Inr) (affine (diag3 (2, 1, 1)) (1, 2, 3)) (affine (diag3 (2, 1, 1)) (1, 2, 3)) = Inr (0, 0, 1) \<and>
   fst (compare_xforms (axis_lib Inr) (affine (diag3 (2, 1, 1)) (1, 2, 3)) (affine (diag3 (2, 1, 1)) (1, 2, 3)) []) = Inr False"
  using identity_property[of "axis_lib Inr" "affine (diag3 (2, 1, 1)) (1, 2, 3)" "affine (diag3 (2, 1, 1)) (1, 2, 3)"
      "affine (diag3 (2, 1, 1)) (1, 2, 3)" "affine (diag3 (1 / 2, 1, 1)) (- 1 / 2, - 2, - 3)" "(0, 0, 1)" "[]"]
  by (simp add: axis_lib_def eye3_def eye4_def axis_mat2axangle_def)

text \<open>
  Claim C4.  The metrics come from the decomposition of the relative transform of the
  specification, the refined (test) matrix times the pseudo-inverse of the fallback
  matrix, in this order: \<open>compare_xforms\<close> gets its three metrics exactly when both files
  load, the pseudo-inverse, the decomposition of that product and the axis-angle
  conversion return, and then the shift is the norm of the decomposed translation, the
  rotation the returned angle, the scale the largest absolute scale factor.
\<close>

theorem relative_transform_order:
  "xform_metrics lib test_mat fallback_mat = Inr (s, r, m) \<longleftrightarrow>
   (\<exists>mf mt comp t rm z sh d.
      loadtxt lib fallback_mat = Inr mf \<and> loadtxt lib test_mat = Inr mt \<and>
      spec_relative_transform lib mt mf = Inr comp \<and>
      decompose44 lib comp = Inr (t, rm, z, sh) \<and> mat2axangle lib rm = Inr (d, r) \<and>
      s = sqrt (dot3 t t) \<and> m = max_abs z)"
  by (auto simp: xform_metrics_def spec_relative_transform_def split: sum.splits)

theorem relative_transform_order_witness:
  "xform_metrics (axis_lib Inr) (affine (diag3 (2, 1, 1)) (1, 0, 0)) (translation (1, 0, 0)) = Inr (1, 0, 2) \<and>
   spec_relative_transform (axis_lib Inr) (affine (diag3 (2, 1, 1)) (1, 0, 0)) (translation (1, 0, 0)) =
     Inr (affine (diag3 (2, 1, 1)) (- 1, 0, 0))"
  using relative_transform_order[of "axis_lib Inr" "affine (diag3 (2, 1, 1)) (1, 0, 0)" "translation (1, 0, 0)" 1 0 2]
  by (simp add: axis_lib_def spec_relative_transform_def translation_def eye3_def axis_mat2axangle_def)

text \<open>
  Claim C7.  \<open>max_scale\<close> is the largest absolute value of the three decomposed scale
  factors.  When one axis is scaled by 0.85 and the other two by 1, it is 1, and with
  shift and rotation within their thresholds the refined registration is accepted,
  although the reciprocal of 0.85 exceeds the threshold 1.1: the gate compares the
  scale factors themselves, not a symmetric ratio.
\<close>

theorem max_scale_absolute:
  assumes "loadtxt lib fallback_mat = Inr mf" and "loadtxt lib test_mat = Inr mt"
    and "pinv lib mf = Inr p" and "decompose44 lib (dot mt p) = Inr (t, rm, (sx, sy, sz), sh)"
    and "mat2axangle lib rm = Inr (d, a)"
  shows "xform_metrics lib test_mat fallback_mat = Inr (sqrt (dot3 t t), a, Max {\<bar>sx\<bar>, \<bar>sy\<bar>, \<bar>sz\<bar>}) \<and>
     ((sx, sy, sz) \<in> {(17 / 20, 1, 1), (1, 17 / 20, 1), (1, 1, 17 / 20)} \<and> sqrt (dot3 t t) \<le> 5 \<and> a \<le> pi / 36 \<longrightarrow>
        Max {\<bar>sx\<bar>, \<bar>sy\<bar>, \<bar>sz\<bar>} = 1 \<and> scale_thresh < 1 / (17 / 20) \<and>
        fst (compare_xforms lib test_mat fallback_mat out) = Inr False)"
proof -
  have mx: "max_abs (sx, sy, sz) = Max {\<bar>sx\<bar>, \<bar>sy\<bar>, \<bar>sz\<bar>}"
    by (simp add: max.commute max.left_commute)
  have m: "xform_metrics lib test_mat fallback_mat = Inr (sqrt (dot3 t t), a, Max {\<bar>sx\<bar>, \<bar>sy\<bar>, \<bar>sz\<bar>})"
    using assms metrics_of_calls[of lib fallback_mat mf test_mat mt p t rm "(sx, sy, sz)" sh d a] mx
    by simp
  show ?thesis
    using m gate_verdict[OF m, of out] by (auto simp: scale_thresh_def)
qed

theorem max_scale_absolute_witness:
  "xform_metrics (axis_lib Inr) (affine (diag3 (17 / 20, 1, 1)) (0, 0, 0)) eye4 = Inr (0, 0, 1) \<and>
   fst (compare_xforms (axis_lib Inr) (affine (diag3 (17 / 20, 1, 1)) (0, 0, 0)) eye4 []) = Inr False"
  using max_scale_absolute[of "axis_lib Inr" eye4 eye4 "affine (diag3 (17 / 20, 1, 1)) (0, 0, 0)"
      "affine (diag3 (17 / 20, 1, 1)) (0, 0, 0)" eye4 "(0, 0, 0)" eye3 "17 / 20" 1 1 "(0, 0, 0)" "(0, 0, 1)" 0 "[]"]
  by (simp add: axis_lib_def eye3_def eye4_def axis_mat2axangle_def)

section \<open>Running the two workflows\<close>

text \<open>
  The value at each node of the two workflows, for any fuel that reaches the node; the
  verdict of the comparison decides the values downstream of it.
\<close>

lemma port_val_step:
  "map_of (interfaces flow) n = Some i \<Longrightarrow> incoming (connections flow) n = ins \<Longrightarrow>
   port_val flow lib (Suc k) n f =
     (case gather (map (\<lambda>(df, src, sf). (df, port_val flow lib k src sf)) ins) of
        None \<Rightarrow> None
      | Some (Inl e) \<Rightarrow> Some (Inl e)
      | Some (Inr vs) \<Rightarrow> Some (run_interface lib n i vs f))"
  by simp

lemma bbreg_inputnode:
  "f \<in> set [''in_file'', ''t1_2_fsnative_reverse_transform'', ''subjects_dir'', ''subject_id'', ''t1_seg'', ''t1_brain''] \<Longrightarrow>
   port_val (init_bbreg_wf dof nt) lib (Suc k) inputnode f = Some (Inr (Given inputnode f))"
  by (simp add: init_bbreg_wf_def)

lemma bbreg_mri_coreg:
  "port_val (init_bbreg_wf dof nt) lib (Suc (Suc k)) mri_coreg f =
     Some (Inr (bbreg_fallback f))"
proof -
  obtain tool args where i: "map_of (interfaces (init_bbreg_wf dof nt)) mri_coreg = Some (External tool args)"
    by (simp add: init_bbreg_wf_def)
  have c: "incoming (connections (init_bbreg_wf dof nt)) mri_coreg =
     [(''subjects_dir'', inputnode, ''subjects_dir''), (''subject_id'', inputnode, ''subject_id''), (''source_file'', inputnode, ''in_file'')]"
    by (simp add: init_bbreg_wf_def)
  show ?thesis
    by (simp add: port_val_step[OF i c] bbreg_inputnode bbreg_fallback_def  del: port_val.simps)
qed

lemma bbreg_bbregister:
  "port_val (init_bbreg_wf dof nt) lib (Suc (Suc (Suc k))) bbregister f =
     Some (Inr (bbreg_refined f))"
proof -
  obtain tool args where i: "map_of (interfaces (init_bbreg_wf dof nt)) bbregister = Some (External tool args)"
    by (simp add: init_bbreg_wf_def)
  have c: "incoming (connections (init_bbreg_wf dof nt)) bbregister =
     [(''subjects_dir'', inputnode, ''subjects_dir''), (''subject_id'', inputnode, ''subject_id''), (''source_file'', inputnode, ''in_file''), (''init_reg_file'', mri_coreg, ''out_lta_file'')]"
    by (simp add: init_bbreg_wf_def)
  show ?thesis
    by (simp add: port_val_step[OF i c] bbreg_inputnode bbreg_mri_coreg bbreg_refined_def  del: port_val.simps)
qed

lemma bbreg_transforms:
  "port_val (init_bbreg_wf dof nt) lib (Suc (Suc (Suc (Suc k)))) transforms f =
     Some (Inr (VList [bbreg_refined ''out_lta_file'', bbreg_fallback ''out_lta_file'']))"
proof -
  have i: "map_of (interfaces (init_bbreg_wf dof nt)) transforms = Some (Merge 2)"
    by (simp add: init_bbreg_wf_def)
  have c: "incoming (connections (init_bbreg_wf dof nt)) transforms =
     [(''in1'', bbregister, ''out_lta_file''), (''in2'', mri_coreg, ''out_lta_file'')]"
    by (simp add: init_bbreg_wf_def)
  show ?thesis
    by (simp add: port_val_step[OF i c] bbreg_bbregister bbreg_mri_coreg numeral_2_eq_2  del: port_val.simps)
qed

lemma bbreg_reports:
  "port_val (init_bbreg_wf dof nt) lib (Suc (Suc (Suc (Suc k)))) reports f =
     Some (Inr (VList [bbreg_refined ''out_report'', bbreg_fallback ''out_report'']))"
proof -
  have i: "map_of (interfaces (init_bbreg_wf dof nt)) reports = Some (Merge 2)"
    by (simp add: init_bbreg_wf_def)
  have c: "incoming (connections (init_bbreg_wf dof nt)) reports =
     [(''in1'', bbregister, ''out_report''), (''in2'', mri_coreg, ''out_report'')]"
    by (simp add: init_bbreg_wf_def)
  show ?thesis
    by (simp add: port_val_step[OF i c] bbreg_bbregister bbreg_mri_coreg numeral_2_eq_2  del: port_val.simps)
qed

lemma bbreg_compare_transforms:
  "port_val (init_bbreg_wf dof nt) lib (Suc (Suc (Suc (Suc k)))) compare_transforms f =
     (case bbreg_verdict lib of Inl e \<Rightarrow> Some (Inl e) | Inr b \<Rightarrow> Some (Inr (VBool b)))"
proof -
  have i: "map_of (interfaces (init_bbreg_wf dof nt)) compare_transforms = Some (Function_compare_xforms)"
    by (simp add: init_bbreg_wf_def)
  have c: "incoming (connections (init_bbreg_wf dof nt)) compare_transforms =
     [(''test_mat'', bbregister, ''out_lta_file''), (''fallback_mat'', mri_coreg, ''out_lta_file'')]"
    by (simp add: init_bbreg_wf_def)
  show ?thesis
    by (cases "bbreg_verdict lib") (simp_all add: port_val_step[OF i c] bbreg_bbregister bbreg_mri_coreg bbreg_verdict_def[symmetric]  del: port_val.simps)
qed

lemma bbreg_select_transform:
  "port_val (init_bbreg_wf dof nt) lib (Suc (Suc (Suc (Suc (Suc k))))) select_transform f =
     (case bbreg_verdict lib of Inl e \<Rightarrow> Some (Inl e) | Inr b \<Rightarrow> Some (Inr (if b then bbreg_fallback ''out_lta_file'' else bbreg_refined ''out_lta_file'')))"
proof -
  have i: "map_of (interfaces (init_bbreg_wf dof nt)) select_transform = Some (Select)"
    by (simp add: init_bbreg_wf_def)
  have c: "incoming (connections (init_bbreg_wf dof nt)) select_transform =
     [(''inlist'', transforms, ''out''), (''index'', compare_transforms, ''out'')]"
    by (simp add: init_bbreg_wf_def)
  show ?thesis
    by (cases "bbreg_verdict lib") (simp_all add: port_val_step[OF i c] bbreg_transforms bbreg_compare_transforms  del: port_val.simps)
qed

lemma bbreg_select_report:
  "port_val (init_bbreg_wf dof nt) lib (Suc (Suc (Suc (Suc (Suc k))))) select_report f =
     (case bbreg_verdict lib of Inl e \<Rightarrow> Some (Inl e) | Inr b \<Rightarrow> Some (Inr (if b then bbreg_fallback ''out_report'' else bbreg_refined ''out_report'')))"
proof -
  have i: "map_of (interfaces (init_bbreg_wf dof nt)) select_report = Some (Select)"
    by (simp add: init_bbreg_wf_def)
  have c: "incoming (connections (init_bbreg_wf dof nt)) select_report =
     [(''inlist'', reports, ''out''), (''index'', compare_transforms, ''out'')]"
    by (simp add: init_bbreg_wf_def)
  show ?thesis
    by (cases "bbreg_verdict lib") (simp_all add: port_val_step[OF i c] bbreg_reports bbreg_compare_transforms  del: port_val.simps)
qed

lemma bbreg_lta_concat:
  "port_val (init_bbreg_wf dof nt) lib (Suc (Suc (Suc (Suc (Suc (Suc k)))))) lta_concat ''out_file'' =
     (case bbreg_verdict lib of Inl e \<Rightarrow> Some (Inl e) | Inr b \<Rightarrow> Some (Inr (Produced lta_concat ''out_file'' [(''in_lta2'', Given inputnode ''t1_2_fsnative_reverse_transform''), (''in_lta1'', (if b then bbreg_fallback ''out_lta_file'' else bbreg_refined ''out_lta_file''))])))"
proof -
  obtain tool args where i: "map_of (interfaces (init_bbreg_wf dof nt)) lta_concat = Some (External tool args)"
    by (simp add: init_bbreg_wf_def)
  have c: "incoming (connections (init_bbreg_wf dof nt)) lta_concat =
     [(''in_lta2'', inputnode, ''t1_2_fsnative_reverse_transform''), (''in_lta1'', select_transform, ''out'')]"
    by (simp add: init_bbreg_wf_def)
  show ?thesis
    by (cases "bbreg_verdict lib") (simp_all add: port_val_step[OF i c] bbreg_inputnode bbreg_select_transform  del: port_val.simps)
qed

lemma bbreg_lta2fsl_fwd:
  "port_val (init_bbreg_wf dof nt) lib (Suc (Suc (Suc (Suc (Suc (Suc (Suc k))))))) lta2fsl_fwd ''out_fsl'' =
     (case bbreg_verdict lib of Inl e \<Rightarrow> Some (Inl e) | Inr b \<Rightarrow> Some (Inr (Produced lta2fsl_fwd ''out_fsl'' [(''in_lta'', Produced lta_concat ''out_file'' [(''in_lta2'', Given inputnode ''t1_2_fsnative_reverse_transform''), (''in_lta1'', (if b then bbreg_fallback ''out_lta_file'' else bbreg_refined ''out_lta_file''))])])))"
proof -
  obtain tool args where i: "map_of (interfaces (init_bbreg_wf dof nt)) lta2fsl_fwd = Some (External tool args)"
    by (simp add: init_bbreg_wf_def)
  have c: "incoming (connections (init_bbreg_wf dof nt)) lta2fsl_fwd =
     [(''in_lta'', lta_concat, ''out_file'')]"
    by (simp add: init_bbreg_wf_def)
  show ?thesis
    by (cases "bbreg_verdict lib") (simp_all add: port_val_step[OF i c] bbreg_lta_concat  del: port_val.simps)
qed

lemma bbreg_lta2fsl_inv:
  "port_val (init_bbreg_wf dof nt) lib (Suc (Suc (Suc (Suc (Suc (Suc (Suc k))))))) lta2fsl_inv ''out_fsl'' =
     (case bbreg_verdict lib of Inl e \<Rightarrow> Some (Inl e) | Inr b \<Rightarrow> Some (Inr (Produced lta2fsl_inv ''out_fsl'' [(''in_lta'', Produced lta_concat ''out_file'' [(''in_lta2'', Given inputnode ''t1_2_fsnative_reverse_transform''), (''in_lta1'', (if b then bbreg_fallback ''out_lta_file'' else bbreg_refined ''out_lta_file''))])])))"
proof -
  obtain tool args where i: "map_of (interfaces (init_bbreg_wf dof nt)) lta2fsl_inv = Some (External tool args)"
    by (simp add: init_bbreg_wf_def)
  have c: "incoming (connections (init_bbreg_wf dof nt)) lta2fsl_inv =
     [(''in_lta'', lta_concat, ''out_file'')]"
    by (simp add: init_bbreg_wf_def)
  show ?thesis
    by (cases "bbreg_verdict lib") (simp_all add: port_val_step[OF i c] bbreg_lta_concat  del: port_val.simps)
qed

lemma bbreg_fsl2itk_fwd:
  "port_val (init_bbreg_wf dof nt) lib (Suc (Suc (Suc (Suc (Suc (Suc (Suc (Suc k)))))))) fsl2itk_fwd ''itk_transform'' =
     (case bbreg_verdict lib of Inl e \<Rightarrow> Some (Inl e) | Inr b \<Rightarrow> Some (Inr (Produced fsl2itk_fwd ''itk_transform'' [(''reference_file'', Given inputnode ''t1_brain''), (''source_file'', Given inputnode ''in_file''), (''transform_file'', Produced lta2fsl_fwd ''out_fsl'' [(''in_lta'', Produced lta_concat ''out_file'' [(''in_lta2'', Given inputnode ''t1_2_fsnative_reverse_transform''), (''in_lta1'', (if b then bbreg_fallback ''out_lta_file'' else bbreg_refined ''out_lta_file''))])])])))"
proof -
  obtain tool args where i: "map_of (interfaces (init_bbreg_wf dof nt)) fsl2itk_fwd = Some (External tool args)"
    by (simp add: init_bbreg_wf_def)
  have c: "incoming (connections (init_bbreg_wf dof nt)) fsl2itk_fwd =
     [(''reference_file'', inputnode, ''t1_brain''), (''source_file'', inputnode, ''in_file''), (''transform_file'', lta2fsl_fwd, ''out_fsl'')]"
    by (simp add: init_bbreg_wf_def)
  show ?thesis
    by (cases "bbreg_verdict lib") (simp_all add: port_val_step[OF i c] bbreg_inputnode bbreg_lta2fsl_fwd  del: port_val.simps)
qed

lemma bbreg_fsl2itk_inv:
  "port_val (init_bbreg_wf dof nt) lib (Suc (Suc (Suc (Suc (Suc (Suc (Suc (Suc k)))))))) fsl2itk_inv ''itk_transform'' =
     (case bbreg_verdict lib of Inl e \<Rightarrow> Some (Inl e) | Inr b \<Rightarrow> Some (Inr (Produced fsl2itk_inv ''itk_transform'' [(''reference_file'', Given inputnode ''in_file''), (''source_file'', Given inputnode ''t1_brain''), (''transform_file'', Produced lta2fsl_inv ''out_fsl'' [(''in_lta'', Produced lta_concat ''out_file'' [(''in_lta2'', Given inputnode ''t1_2_fsnative_reverse_transform''), (''in_lta1'', (if b then bbreg_fallback ''out_lta_file'' else bbreg_refined ''out_lta_file''))])])])))"
proof -
  obtain tool args where i: "map_of (interfaces (init_bbreg_wf dof nt)) fsl2itk_inv = Some (External tool args)"
    by (simp add: init_bbreg_wf_def)
  have c: "incoming (connections (init_bbreg_wf dof nt)) fsl2itk_inv =
     [(''reference_file'', inputnode, ''in_file''), (''source_file'', inputnode, ''t1_brain''), (''transform_file'', lta2fsl_inv, ''out_fsl'')]"
    by (simp add: init_bbreg_wf_def)
  show ?thesis
    by (cases "bbreg_verdict lib") (simp_all add: port_val_step[OF i c] bbreg_inputnode bbreg_lta2fsl_inv  del: port_val.simps)
qed

lemma bbreg_outputnode_itk_bold_to_t1:
  "port_val (init_bbreg_wf dof nt) lib (Suc (Suc (Suc (Suc (Suc (Suc (Suc (Suc (Suc k))))))))) outputnode ''itk_bold_to_t1'' =
     (case bbreg_verdict lib of Inl e \<Rightarrow> Some (Inl e) | Inr b \<Rightarrow> Some (Inr (Produced fsl2itk_fwd ''itk_transform'' [(''reference_file'', Given inputnode ''t1_brain''), (''source_file'', Given inputnode ''in_file''), (''transform_file'', Produced lta2fsl_fwd ''out_fsl'' [(''in_lta'', Produced lta_concat ''out_file'' [(''in_lta2'', Given inputnode ''t1_2_fsnative_reverse_transform''), (''in_lta1'', (if b then bbreg_fallback ''out_lta_file'' else bbreg_refined ''out_lta_file''))])])])))"
proof -
  have i: "map_of (interfaces (init_bbreg_wf dof nt)) outputnode = Some (IdentityInterface [''itk_bold_to_t1'', ''itk_t1_to_bold'', ''out_report'', ''fallback''])"
    by (simp add: init_bbreg_wf_def)
  have c: "incoming (connections (init_bbreg_wf dof nt)) outputnode =
     [(''itk_bold_to_t1'', fsl2itk_fwd, ''itk_transform''), (''itk_t1_to_bold'', fsl2itk_inv, ''itk_transform''), (''fallback'', compare_transforms, ''out''), (''out_report'', select_report, ''out'')]"
    by (simp add: init_bbreg_wf_def)
  show ?thesis
    by (cases "bbreg_verdict lib") (simp_all add: port_val_step[OF i c] bbreg_fsl2itk_fwd bbreg_fsl2itk_inv bbreg_compare_transforms bbreg_select_report  del: port_val.simps)
qed

lemma bbreg_outputnode_itk_t1_to_bold:
  "port_val (init_bbreg_wf dof nt) lib (Suc (Suc (Suc (Suc (Suc (Suc (Suc (Suc (Suc k))))))))) outputnode ''itk_t1_to_bold'' =
     (case bbreg_verdict lib of Inl e \<Rightarrow> Some (Inl e) | Inr b \<Rightarrow> Some (Inr (Produced fsl2itk_inv ''itk_transform'' [(''reference_file'', Given inputnode ''in_file''), (''source_file'', Given inputnode ''t1_brain''), (''transform_file'', Produced lta2fsl_inv ''out_fsl'' [(''in_lta'', Produced lta_concat ''out_file'' [(''in_lta2'', Given inputnode ''t1_2_fsnative_reverse_transform''), (''in_lta1'', (if b then bbreg_fallback ''out_lta_file'' else bbreg_refined ''out_lta_file''))])])])))"
proof -
  have i: "map_of (interfaces (init_bbreg_wf dof nt)) outputnode = Some (IdentityInterface [''itk_bold_to_t1'', ''itk_t1_to_bold'', ''out_report'', ''fallback''])"
    by (simp add: init_bbreg_wf_def)
  have c: "incoming (connections (init_bbreg_wf dof nt)) outputnode =
     [(''itk_bold_to_t1'', fsl2itk_fwd, ''itk_transform''), (''itk_t1_to_bold'', fsl2itk_inv, ''itk_transform''), (''fallback'', compare_transforms, ''out''), (''out_report'', select_report, ''out'')]"
    by (simp add: init_bbreg_wf_def)
  show ?thesis
    by (cases "bbreg_verdict lib") (simp_all add: port_val_step[OF i c] bbreg_fsl2itk_fwd bbreg_fsl2itk_inv bbreg_compare_transforms bbreg_select_report  del: port_val.simps)
qed

lemma bbreg_outputnode_fallback:
  "port_val (init_bbreg_wf dof nt) lib (Suc (Suc (Suc (Suc (Suc (Suc (Suc (Suc (Suc k))))))))) outputnode ''fallback'' =
     (case bbreg_verdict lib of Inl e \<Rightarrow> Some (Inl e) | Inr b \<Rightarrow> Some (Inr (VBool b)))"
proof -
  have i: "map_of (interfaces (init_bbreg_wf dof nt)) outputnode = Some (IdentityInterface [''itk_bold_to_t1'', ''itk_t1_to_bold'', ''out_report'', ''fallback''])"
    by (simp add: init_bbreg_wf_def)
  have c: "incoming (connections (init_bbreg_wf dof nt)) outputnode =
     [(''itk_bold_to_t1'', fsl2itk_fwd, ''itk_transform''), (''itk_t1_to_bold'', fsl2itk_inv, ''itk_transform''), (''fallback'', compare_transforms, ''out''), (''out_report'', select_report, ''out'')]"
    by (simp add: init_bbreg_wf_def)
  show ?thesis
    by (cases "bbreg_verdict lib") (simp_all add: port_val_step[OF i c] bbreg_fsl2itk_fwd bbreg_fsl2itk_inv bbreg_compare_transforms bbreg_select_report  del: port_val.simps)
qed

lemma bbreg_outputnode_out_report:
  "port_val (init_bbreg_wf dof nt) lib (Suc (Suc (Suc (Suc (Suc (Suc (Suc (Suc (Suc k))))))))) outputnode ''out_report'' =
     (case bbreg_verdict lib of Inl e \<Rightarrow> Some (Inl e) | Inr b \<Rightarrow> Some (Inr (if b then bbreg_fallback ''out_report'' else bbreg_refined ''out_report'')))"
proof -
  have i: "map_of (interfaces (init_bbreg_wf dof nt)) outputnode = Some (IdentityInterface [''itk_bold_to_t1'', ''itk_t1_to_bold'', ''out_report'', ''fallback''])"
    by (simp add: init_bbreg_wf_def)
  have c: "incoming (connections (init_bbreg_wf dof nt)) outputnode =
     [(''itk_bold_to_t1'', fsl2itk_fwd, ''itk_transform''), (''itk_t1_to_bold'', fsl2itk_inv, ''itk_transform''), (''fallback'', compare_transforms, ''out''), (''out_report'', select_report, ''out'')]"
    by (simp add: init_bbreg_wf_def)
  show ?thesis
    by (cases "bbreg_verdict lib") (simp_all add: port_val_step[OF i c] bbreg_fsl2itk_fwd bbreg_fsl2itk_inv bbreg_compare_transforms bbreg_select_report  del: port_val.simps)
qed

lemma fsl_inputnode:
  "f \<in> set [''in_file'', ''t1_2_fsnative_reverse_transform'', ''subjects_dir'', ''subject_id'', ''t1_seg'', ''t1_brain''] \<Longrightarrow>
   port_val (init_fsl_bbr_wf dof fsldir) lib (Suc k) inputnode f = Some (Inr (Given inputnode f))"
  by (simp add: init_fsl_bbr_wf_def)

lemma fsl_wm_mask:
  "port_val (init_fsl_bbr_wf dof fsldir) lib (Suc (Suc k)) wm_mask f =
     Some (Inr (Produced wm_mask f [(''in_seg'', Given inputnode ''t1_seg'')]))"
proof -
  obtain tool args where i: "map_of (interfaces (init_fsl_bbr_wf dof fsldir)) wm_mask = Some (External tool args)"
    by (simp add: init_fsl_bbr_wf_def)
  have c: "incoming (connections (init_fsl_bbr_wf dof fsldir)) wm_mask =
     [(''in_seg'', inputnode, ''t1_seg'')]"
    by (simp add: init_fsl_bbr_wf_def)
  show ?thesis
    by (simp add: port_val_step[OF i c] fsl_inputnode  del: port_val.simps)
qed

lemma fsl_flt_bbr_init:
  "port_val (init_fsl_bbr_wf dof fsldir) lib (Suc (Suc k)) flt_bbr_init f =
     Some (Inr (fsl_fallback f))"
proof -
  obtain tool args where i: "map_of (interfaces (init_fsl_bbr_wf dof fsldir)) flt_bbr_init = Some (External tool args)"
    by (simp add: init_fsl_bbr_wf_def)
  have c: "incoming (connections (init_fsl_bbr_wf dof fsldir)) flt_bbr_init =
     [(''in_file'', inputnode, ''in_file''), (''reference'', inputnode, ''t1_brain'')]"
    by (simp add: init_fsl_bbr_wf_def)
  show ?thesis
    by (simp add: port_val_step[OF i c] fsl_inputnode fsl_fallback_def  del: port_val.simps)
qed

lemma fsl_flt_bbr:
  "port_val (init_fsl_bbr_wf dof fsldir) lib (Suc (Suc (Suc k))) flt_bbr f =
     Some (Inr (fsl_refined f))"
proof -
  obtain tool args where i: "map_of (interfaces (init_fsl_bbr_wf dof fsldir)) flt_bbr = Some (External tool args)"
    by (simp add: init_fsl_bbr_wf_def)
  have c: "incoming (connections (init_fsl_bbr_wf dof fsldir)) flt_bbr =
     [(''in_matrix_file'', flt_bbr_init, ''out_matrix_file''), (''in_file'', inputnode, ''in_file''), (''reference'', inputnode, ''t1_brain''), (''wm_seg'', wm_mask, ''out'')]"
    by (simp add: init_fsl_bbr_wf_def)
  show ?thesis
    by (simp add: port_val_step[OF i c] fsl_inputnode fsl_flt_bbr_init fsl_wm_mask fsl_refined_def  del: port_val.simps)
qed

lemma fsl_transforms:
  "port_val (init_fsl_bbr_wf dof fsldir) lib (Suc (Suc (Suc (Suc k)))) transforms f =
     Some (Inr (VList [fsl_refined ''out_matrix_file'', fsl_fallback ''out_matrix_file'']))"
proof -
  have i: "map_of (interfaces (init_fsl_bbr_wf dof fsldir)) transforms = Some (Merge 2)"
    by (simp add: init_fsl_bbr_wf_def)
  have c: "incoming (connections (init_fsl_bbr_wf dof fsldir)) transforms =
     [(''in1'', flt_bbr, ''out_matrix_file''), (''in2'', flt_bbr_init, ''out_matrix_file'')]"
    by (simp add: init_fsl_bbr_wf_def)
  show ?thesis
    by (simp add: port_val_step[OF i c] fsl_flt_bbr fsl_flt_bbr_init numeral_2_eq_2  del: port_val.simps)
qed

lemma fsl_reports:
  "port_val (init_fsl_bbr_wf dof fsldir) lib (Suc (Suc (Suc (Suc k)))) reports f =
     Some (Inr (VList [fsl_refined ''out_report'', fsl_fallback ''out_report'']))"
proof -
  have i: "map_of (interfaces (init_fsl_bbr_wf dof fsldir)) reports = Some (Merge 2)"
    by (simp add: init_fsl_bbr_wf_def)
  have c: "incoming (connections (init_fsl_bbr_wf dof fsldir)) reports =
     [(''in1'', flt_bbr, ''out_report''), (''in2'', flt_bbr_init, ''out_report'')]"
    by (simp add: init_fsl_bbr_wf_def)
  show ?thesis
    by (simp add: port_val_step[OF i c] fsl_flt_bbr fsl_flt_bbr_init numeral_2_eq_2  del: port_val.simps)
qed

lemma fsl_compare_transforms:
  "port_val (init_fsl_bbr_wf dof fsldir) lib (Suc (Suc (Suc (Suc k)))) compare_transforms f =
     (case fsl_verdict lib of Inl e \<Rightarrow> Some (Inl e) | Inr b \<Rightarrow> Some (Inr (VBool b)))"
proof -
  have i: "map_of (interfaces (init_fsl_bbr_wf dof fsldir)) compare_transforms = Some (Function_compare_xforms)"
    by (simp add: init_fsl_bbr_wf_def)
  have c: "incoming (connections (init_fsl_bbr_wf dof fsldir)) compare_transforms =
     [(''test_mat'', flt_bbr, ''out_matrix_file''), (''fallback_mat'', flt_bbr_init, ''out_matrix_file'')]"
    by (simp add: init_fsl_bbr_wf_def)
  show ?thesis
    by (cases "fsl_verdict lib") (simp_all add: port_val_step[OF i c] fsl_flt_bbr fsl_flt_bbr_init fsl_verdict_def[symmetric]  del: port_val.simps)
qed

lemma fsl_select_transform:
  "port_val (init_fsl_bbr_wf dof fsldir) lib (Suc (Suc (Suc (Suc (Suc k))))) select_transform f =
     (case fsl_verdict lib of Inl e \<Rightarrow> Some (Inl e) | Inr b \<Rightarrow> Some (Inr ((if b then fsl_fallback ''out_matrix_file'' else fsl_refined ''out_matrix_file''))))"
proof -
  have i: "map_of (interfaces (init_fsl_bbr_wf dof fsldir)) select_transform = Some (Select)"
    by (simp add: init_fsl_bbr_wf_def)
  have c: "incoming (connections (init_fsl_bbr_wf dof fsldir)) select_transform =
     [(''inlist'', transforms, ''out''), (''index'', compare_transforms, ''out'')]"
    by (simp add: init_fsl_bbr_wf_def)
  show ?thesis
    by (cases "fsl_verdict lib") (simp_all add: port_val_step[OF i c] fsl_transforms fsl_compare_transforms  del: port_val.simps)
qed

lemma fsl_select_report:
  "port_val (init_fsl_bbr_wf dof fsldir) lib (Suc (Suc (Suc (Suc (Suc k))))) select_report f =
     (case fsl_verdict lib of Inl e \<Rightarrow> Some (Inl e) | Inr b \<Rightarrow> Some (Inr (if b then fsl_fallback ''out_report'' else fsl_refined ''out_report'')))"
proof -
  have i: "map_of (interfaces (init_fsl_bbr_wf dof fsldir)) select_report = Some (Select)"
    by (simp add: init_fsl_bbr_wf_def)
  have c: "incoming (connections (init_fsl_bbr_wf dof fsldir)) select_report =
     [(''inlist'', reports, ''out''), (''index'', compare_transforms, ''out'')]"
    by (simp add: init_fsl_bbr_wf_def)
  show ?thesis
    by (cases "fsl_verdict lib") (simp_all add: port_val_step[OF i c] fsl_reports fsl_compare_transforms  del: port_val.simps)
qed

lemma fsl_invt_bbr:
  "port_val (init_fsl_bbr_wf dof fsldir) lib (Suc (Suc (Suc (Suc (Suc (Suc k)))))) invt_bbr ''out_file'' =
     (case fsl_verdict lib of Inl e \<Rightarrow> Some (Inl e) | Inr b \<Rightarrow> Some (Inr (Produced invt_bbr ''out_file'' [(''in_file'', (if b then fsl_fallback ''out_matrix_file'' else fsl_refined ''out_matrix_file''))])))"
proof -
  obtain tool args where i: "map_of (interfaces (init_fsl_bbr_wf dof fsldir)) invt_bbr = Some (External tool args)"
    by (simp add: init_fsl_bbr_wf_def)
  have c: "incoming (connections (init_fsl_bbr_wf dof fsldir)) invt_bbr =
     [(''in_file'', select_transform, ''out'')]"
    by (simp add: init_fsl_bbr_wf_def)
  show ?thesis
    by (cases "fsl_verdict lib") (simp_all add: port_val_step[OF i c] fsl_select_transform  del: port_val.simps)
qed

lemma fsl_fsl2itk_fwd:
  "port_val (init_fsl_bbr_wf dof fsldir) lib (Suc (Suc (Suc (Suc (Suc (Suc k)))))) fsl2itk_fwd ''itk_transform'' =
     (case fsl_verdict lib of Inl e \<Rightarrow> Some (Inl e) | Inr b \<Rightarrow> Some (Inr (Produced fsl2itk_fwd ''itk_transform'' [(''reference_file'', Given inputnode ''t1_brain''), (''source_file'', Given inputnode ''in_file''), (''transform_file'', (if b then fsl_fallback ''out_matrix_file'' else fsl_refined ''out_matrix_file''))])))"
proof -
  obtain tool args where i: "map_of (interfaces (init_fsl_bbr_wf dof fsldir)) fsl2itk_fwd = Some (External tool args)"
    by (simp add: init_fsl_bbr_wf_def)
  have c: "incoming (connections (init_fsl_bbr_wf dof fsldir)) fsl2itk_fwd =
     [(''reference_file'', inputnode, ''t1_brain''), (''source_file'', inputnode, ''in_file''), (''transform_file'', select_transform, ''out'')]"
    by (simp add: init_fsl_bbr_wf_def)
  show ?thesis
    by (cases "fsl_verdict lib") (simp_all add: port_val_step[OF i c] fsl_inputnode fsl_select_transform  del: port_val.simps)
qed

lemma fsl_fsl2itk_inv:
  "port_val (init_fsl_bbr_wf dof fsldir) lib (Suc (Suc (Suc (Suc (Suc (Suc (Suc k))))))) fsl2itk_inv ''itk_transform'' =
     (case fsl_verdict lib of Inl e \<Rightarrow> Some (Inl e) | Inr b \<Rightarrow> Some (Inr (Produced fsl2itk_inv ''itk_transform'' [(''reference_file'', Given inputnode ''in_file''), (''source_file'', Given inputnode ''t1_brain''), (''transform_file'', Produced invt_bbr ''out_file'' [(''in_file'', (if b then fsl_fallback ''out_matrix_file'' else fsl_refined ''out_matrix_file''))])])))"
proof -
  obtain tool args where i: "map_of (interfaces (init_fsl_bbr_wf dof fsldir)) fsl2itk_inv = Some (External tool args)"
    by (simp add: init_fsl_bbr_wf_def)
  have c: "incoming (connections (init_fsl_bbr_wf dof fsldir)) fsl2itk_inv =
     [(''reference_file'', inputnode, ''in_file''), (''source_file'', inputnode, ''t1_brain''), (''transform_file'', invt_bbr, ''out_file'')]"
    by (simp add: init_fsl_bbr_wf_def)
  show ?thesis
    by (cases "fsl_verdict lib") (simp_all add: port_val_step[OF i c] fsl_inputnode fsl_invt_bbr  del: port_val.simps)
qed

lemma fsl_outputnode_itk_bold_to_t1:
  "port_val (init_fsl_bbr_wf dof fsldir) lib (Suc (Suc (Suc (Suc (Suc (Suc (Suc (Suc k)))))))) outputnode ''itk_bold_to_t1'' =
     (case fsl_verdict lib of Inl e \<Rightarrow> Some (Inl e) | Inr b \<Rightarrow> Some (Inr (Produced fsl2itk_fwd ''itk_transform'' [(''reference_file'', Given inputnode ''t1_brain''), (''source_file'', Given inputnode ''in_file''), (''transform_file'', (if b then fsl_fallback ''out_matrix_file'' else fsl_refined ''out_matrix_file''))])))"
proof -
  have i: "map_of (interfaces (init_fsl_bbr_wf dof fsldir)) outputnode = Some (IdentityInterface [''itk_bold_to_t1'', ''itk_t1_to_bold'', ''out_report'', ''fallback''])"
    by (simp add: init_fsl_bbr_wf_def)
  have c: "incoming (connections (init_fsl_bbr_wf dof fsldir)) outputnode =
     [(''fallback'', compare_transforms, ''out''), (''itk_bold_to_t1'', fsl2itk_fwd, ''itk_transform''), (''itk_t1_to_bold'', fsl2itk_inv, ''itk_transform''), (''out_report'', select_report, ''out'')]"
    by (simp add: init_fsl_bbr_wf_def)
  show ?thesis
    by (cases "fsl_verdict lib") (simp_all add: port_val_step[OF i c] fsl_fsl2itk_fwd fsl_fsl2itk_inv fsl_compare_transforms fsl_select_report  del: port_val.simps)
qed

lemma fsl_outputnode_itk_t1_to_bold:
  "port_val (init_fsl_bbr_wf dof fsldir) lib (Suc (Suc (Suc (Suc (Suc (Suc (Suc (Suc k)))))))) outputnode ''itk_t1_to_bold'' =
     (case fsl_verdict lib of Inl e \<Rightarrow> Some (Inl e) | Inr b \<Rightarrow> Some (Inr (Produced fsl2itk_inv ''itk_transform'' [(''reference_file'', Given inputnode ''in_file''), (''source_file'', Given inputnode ''t1_brain''), (''transform_file'', Produced invt_bbr ''out_file'' [(''in_file'', (if b then fsl_fallback ''out_matrix_file'' else fsl_refined ''out_matrix_file''))])])))"
proof -
  have i: "map_of (interfaces (init_fsl_bbr_wf dof fsldir)) outputnode = Some (IdentityInterface [''itk_bold_to_t1'', ''itk_t1_to_bold'', ''out_report'', ''fallback''])"
    by (simp add: init_fsl_bbr_wf_def)
  have c: "incoming (connections (init_fsl_bbr_wf dof fsldir)) outputnode =
     [(''fallback'', compare_transforms, ''out''), (''itk_bold_to_t1'', fsl2itk_fwd, ''itk_transform''), (''itk_t1_to_bold'', fsl2itk_inv, ''itk_transform''), (''out_report'', select_report, ''out'')]"
    by (simp add: init_fsl_bbr_wf_def)
  show ?thesis
    by (cases "fsl_verdict lib") (simp_all add: port_val_step[OF i c] fsl_fsl2itk_fwd fsl_fsl2itk_inv fsl_compare_transforms fsl_select_report  del: port_val.simps)
qed

lemma fsl_outputnode_fallback:
  "port_val (init_fsl_bbr_wf dof fsldir) lib (Suc (Suc (Suc (Suc (Suc (Suc (Suc (Suc k)))))))) outputnode ''fallback'' =
     (case fsl_verdict lib of Inl e \<Rightarrow> Some (Inl e) | Inr b \<Rightarrow> Some (Inr (VBool b)))"
proof -
  have i: "map_of (interfaces (init_fsl_bbr_wf dof fsldir)) outputnode = Some (IdentityInterface [''itk_bold_to_t1'', ''itk_t1_to_bold'', ''out_report'', ''fallback''])"
    by (simp add: init_fsl_bbr_wf_def)
  have c: "incoming (connections (init_fsl_bbr_wf dof fsldir)) outputnode =
     [(''fallback'', compare_transforms, ''out''), (''itk_bold_to_t1'', fsl2itk_fwd, ''itk_transform''), (''itk_t1_to_bold'', fsl2itk_inv, ''itk_transform''), (''out_report'', select_report, ''out'')]"
    by (simp add: init_fsl_bbr_wf_def)
  show ?thesis
    by (cases "fsl_verdict lib") (simp_all add: port_val_step[OF i c] fsl_fsl2itk_fwd fsl_fsl2itk_inv fsl_compare_transforms fsl_select_report  del: port_val.simps)
qed

lemma fsl_outputnode_out_report:
  "port_val (init_fsl_bbr_wf dof fsldir) lib (Suc (Suc (Suc (Suc (Suc (Suc (Suc (Suc k)))))))) outputnode ''out_report'' =
     (case fsl_verdict lib of Inl e \<Rightarrow> Some (Inl e) | Inr b \<Rightarrow> Some (Inr (if b then fsl_fallback ''out_report'' else fsl_refined ''out_report'')))"
proof -
  have i: "map_of (interfaces (init_fsl_bbr_wf dof fsldir)) outputnode = Some (IdentityInterface [''itk_bold_to_t1'', ''itk_t1_to_bold'', ''out_report'', ''fallback''])"
    by (simp add: init_fsl_bbr_wf_def)
  have c: "incoming (connections (init_fsl_bbr_wf dof fsldir)) outputnode =
     [(''fallback'', compare_transforms, ''out''), (''itk_bold_to_t1'', fsl2itk_fwd, ''itk_transform''), (''itk_t1_to_bold'', fsl2itk_inv, ''itk_transform''), (''out_report'', select_report, ''out'')]"
    by (simp add: init_fsl_bbr_wf_def)
  show ?thesis
    by (cases "fsl_verdict lib") (simp_all add: port_val_step[OF i c] fsl_fsl2itk_fwd fsl_fsl2itk_inv fsl_compare_transforms fsl_select_report  del: port_val.simps)
qed

lemma bbreg_length: "length (interfaces (init_bbreg_wf dof nt)) = 15"
  by (simp add: init_bbreg_wf_def)

lemma fsl_length: "length (interfaces (init_fsl_bbr_wf dof fsldir)) = 14"
  by (simp add: init_fsl_bbr_wf_def)

lemma bbreg_result_candidates:
  "result (init_bbreg_wf dof nt) lib bbregister f = Some (Inr (bbreg_refined f))"
  "result (init_bbreg_wf dof nt) lib mri_coreg f = Some (Inr (bbreg_fallback f))"
  "result (init_bbreg_wf dof nt) lib transforms f =
     Some (Inr (VList [bbreg_refined ''out_lta_file'', bbreg_fallback ''out_lta_file'']))"
  "result (init_bbreg_wf dof nt) lib reports f =
     Some (Inr (VList [bbreg_refined ''out_report'', bbreg_fallback ''out_report'']))"
  using bbreg_bbregister[of dof nt lib 12 f] bbreg_mri_coreg[of dof nt lib 13 f]
    bbreg_transforms[of dof nt lib 11 f] bbreg_reports[of dof nt lib 11 f]
  by (simp_all add: result_def bbreg_length)

lemma bbreg_result_selection:
  "result (init_bbreg_wf dof nt) lib compare_transforms f =
     (case bbreg_verdict lib of Inl e \<Rightarrow> Some (Inl e) | Inr b \<Rightarrow> Some (Inr (VBool b)))"
  "result (init_bbreg_wf dof nt) lib select_transform f =
     (case bbreg_verdict lib of Inl e \<Rightarrow> Some (Inl e)
      | Inr b \<Rightarrow> Some (Inr (if b then bbreg_fallback ''out_lta_file'' else bbreg_refined ''out_lta_file'')))"
  "result (init_bbreg_wf dof nt) lib select_report f =
     (case bbreg_verdict lib of Inl e \<Rightarrow> Some (Inl e)
      | Inr b \<Rightarrow> Some (Inr (if b then bbreg_fallback ''out_report'' else bbreg_refined ''out_report'')))"
  using bbreg_compare_transforms[of dof nt lib 11 f] bbreg_select_transform[of dof nt lib 10 f]
    bbreg_select_report[of dof nt lib 10 f]
  by (simp_all add: result_def bbreg_length)

lemma fsl_result_candidates:
  "result (init_fsl_bbr_wf dof fsldir) lib flt_bbr f = Some (Inr (fsl_refined f))"
  "result (init_fsl_bbr_wf dof fsldir) lib flt_bbr_init f = Some (Inr (fsl_fallback f))"
  "result (init_fsl_bbr_wf dof fsldir) lib transforms f =
     Some (Inr (VList [fsl_refined ''out_matrix_file'', fsl_fallback ''out_matrix_file'']))"
  "result (init_fsl_bbr_wf dof fsldir) lib reports f =
     Some (Inr (VList [fsl_refined ''out_report'', fsl_fallback ''out_report'']))"
  using fsl_flt_bbr[of dof fsldir lib 11 f] fsl_flt_bbr_init[of dof fsldir lib 12 f]
    fsl_transforms[of dof fsldir lib 10 f] fsl_reports[of dof fsldir lib 10 f]
  by (simp_all add: result_def fsl_length)

lemma fsl_result_selection:
  "result (init_fsl_bbr_wf dof fsldir) lib compare_transforms f =
     (case fsl_verdict lib of Inl e \<Rightarrow> Some (Inl e) | Inr b \<Rightarrow> Some (Inr (VBool b)))"
  "result (init_fsl_bbr_wf dof fsldir) lib select_transform f =
     (case fsl_verdict lib of Inl e \<Rightarrow> Some (Inl e)
      | Inr b \<Rightarrow> Some (Inr (if b then fsl_fallback ''out_matrix_file'' else fsl_refined ''out_matrix_file'')))"
  "result (init_fsl_bbr_wf dof fsldir) lib select_report f =
     (case fsl_verdict lib of Inl e \<Rightarrow> Some (Inl e)
      | Inr b \<Rightarrow> Some (Inr (if b then fsl_fallback ''out_report'' else fsl_refined ''out_report'')))"
  using fsl_compare_transforms[of dof fsldir lib 10 f] fsl_select_transform[of dof fsldir lib 9 f]
    fsl_select_report[of dof fsldir lib 9 f]
  by (simp_all add: result_def fsl_length)

lemma bbreg_selection:
  assumes "result (init_bbreg_wf dof nt) lib compare_transforms ''out'' = Some (Inr (VBool reject_refined))"
  shows "\<exists>ts rs. result (init_bbreg_wf dof nt) lib transforms ''out'' = Some (Inr (VList ts)) \<and>
      result (init_bbreg_wf dof nt) lib reports ''out'' = Some (Inr (VList rs)) \<and>
      length ts = 2 \<and> length rs = 2 \<and>
      result (init_bbreg_wf dof nt) lib select_transform ''out'' = Some (Inr (ts ! (if reject_refined then 1 else 0))) \<and>
      result (init_bbreg_wf dof nt) lib select_report ''out'' = Some (Inr (rs ! (if reject_refined then 1 else 0))) \<and>
      origin (ts ! (if reject_refined then 1 else 0)) = Some (if reject_refined then mri_coreg else bbregister) \<and>
      origin (rs ! (if reject_refined then 1 else 0)) = Some (if reject_refined then mri_coreg else bbregister)"
proof -
  have v: "bbreg_verdict lib = Inr reject_refined"
    using assms by (simp add: bbreg_result_selection split: sum.splits)
  show ?thesis
    by (simp add: bbreg_result_candidates bbreg_result_selection v bbreg_fallback_def bbreg_refined_def)
qed

lemma fsl_selection:
  assumes "result (init_fsl_bbr_wf dof fsldir) lib compare_transforms ''out'' = Some (Inr (VBool reject_refined))"
  shows "\<exists>ts rs. result (init_fsl_bbr_wf dof fsldir) lib transforms ''out'' = Some (Inr (VList ts)) \<and>
      result (init_fsl_bbr_wf dof fsldir) lib reports ''out'' = Some (Inr (VList rs)) \<and>
      length ts = 2 \<and> length rs = 2 \<and>
      result (init_fsl_bbr_wf dof fsldir) lib select_transform ''out'' = Some (Inr (ts ! (if reject_refined then 1 else 0))) \<and>
      result (init_fsl_bbr_wf dof fsldir) lib select_report ''out'' = Some (Inr (rs ! (if reject_refined then 1 else 0))) \<and>
      origin (ts ! (if reject_refined then 1 else 0)) = Some (if reject_refined then flt_bbr_init else flt_bbr) \<and>
      origin (rs ! (if reject_refined then 1 else 0)) = Some (if reject_refined then flt_bbr_init else flt_bbr)"
proof -
  have v: "fsl_verdict lib = Inr reject_refined"
    using assms by (simp add: fsl_result_selection split: sum.splits)
  show ?thesis
    by (simp add: fsl_result_candidates fsl_result_selection v fsl_fallback_def fsl_refined_def)
qed

lemma index_sources:
  "source (init_bbreg_wf dof nt) select_transform ''index'' = Some (compare_transforms, ''out'')"
  "source (init_bbreg_wf dof nt) select_report ''index'' = Some (compare_transforms, ''out'')"
  "source (init_fsl_bbr_wf dof fsldir) select_transform ''index'' = Some (compare_transforms, ''out'')"
  "source (init_fsl_bbr_wf dof fsldir) select_report ''index'' = Some (compare_transforms, ''out'')"
  by (simp_all add: source_def init_bbreg_wf_def init_fsl_bbr_wf_def)

text \<open>
  Claim C1.  In both workflows the \<open>index\<close> input of \<open>select_transform\<close> and of
  \<open>select_report\<close> is connected to the one output of \<open>compare_transforms\<close>.  Whenever
  the comparison returns the verdict \<open>reject_refined\<close>, the selected transform and the
  selected report are the elements of the two candidate lists at the same index, 1 if
  \<open>reject_refined\<close> and 0 otherwise, and both were written by the same node: the
  fallback registration at index 1, the refined registration at index 0.
\<close>

theorem selection_shared_index:
  "source (init_bbreg_wf dof nt) select_transform ''index'' = Some (compare_transforms, ''out'') \<and>
   source (init_bbreg_wf dof nt) select_report ''index'' = Some (compare_transforms, ''out'') \<and>
   source (init_fsl_bbr_wf dof fsldir) select_transform ''index'' = Some (compare_transforms, ''out'') \<and>
   source (init_fsl_bbr_wf dof fsldir) select_report ''index'' = Some (compare_transforms, ''out'') \<and>
   (result (init_bbreg_wf dof nt) lib compare_transforms ''out'' = Some (Inr (VBool reject_refined)) \<longrightarrow>
    (\<exists>ts rs. result (init_bbreg_wf dof nt) lib transforms ''out'' = Some (Inr (VList ts)) \<and>
      result (init_bbreg_wf dof nt) lib reports ''out'' = Some (Inr (VList rs)) \<and>
      length ts = 2 \<and> length rs = 2 \<and>
      result (init_bbreg_wf dof nt) lib select_transform ''out'' = Some (Inr (ts ! (if reject_refined then 1 else 0))) \<and>
      result (init_bbreg_wf dof nt) lib select_report ''out'' = Some (Inr (rs ! (if reject_refined then 1 else 0))) \<and>
      origin (ts ! (if reject_refined then 1 else 0)) = Some (if reject_refined then mri_coreg else bbregister) \<and>
      origin (rs ! (if reject_refined then 1 else 0)) = Some (if reject_refined then mri_coreg else bbregister))) \<and>
   (result (init_fsl_bbr_wf dof fsldir) lib compare_transforms ''out'' = Some (Inr (VBool reject_refined)) \<longrightarrow>
    (\<exists>ts rs. result (init_fsl_bbr_wf dof fsldir) lib transforms ''out'' = Some (Inr (VList ts)) \<and>
      result (init_fsl_bbr_wf dof fsldir) lib reports ''out'' = Some (Inr (VList rs)) \<and>
      length ts = 2 \<and> length rs = 2 \<and>
      result (init_fsl_bbr_wf dof fsldir) lib select_transform ''out'' = Some (Inr (ts ! (if reject_refined then 1 else 0))) \<and>
      result (init_fsl_bbr_wf dof fsldir) lib select_report ''out'' = Some (Inr (rs ! (if reject_refined then 1 else 0))) \<and>
      origin (ts ! (if reject_refined then 1 else 0)) = Some (if reject_refined then flt_bbr_init else flt_bbr) \<and>
      origin (rs ! (if reject_refined then 1 else 0)) = Some (if reject_refined then flt_bbr_init else flt_bbr)))"
  using index_sources bbreg_selection[of dof nt lib reject_refined]
    fsl_selection[of dof fsldir lib reject_refined]
  by blast

lemma sample_verdicts:
  "bbreg_verdict (axis_lib (candidate_files (translation (0, 0, 6)) eye4)) = Inr True"
  "bbreg_verdict (axis_lib (candidate_files (translation (0, 0, 1)) eye4)) = Inr False"
  "fsl_verdict (axis_lib (candidate_files (translation (0, 0, 6)) eye4)) = Inr True"
  "fsl_verdict (axis_lib (candidate_files (translation (0, 0, 1)) eye4)) = Inr False"
  by (simp_all add: bbreg_verdict_def fsl_verdict_def compare_xforms_def xform_metrics_def axis_lib_def
      candidate_files_def bbreg_refined_def bbreg_fallback_def fsl_refined_def fsl_fallback_def
      translation_def eye3_def eye4_def axis_mat2axangle_def shift_thresh_def rot_thresh_def scale_thresh_def)

theorem selection_shared_index_witness:
  "result (init_bbreg_wf 9 1) (axis_lib (candidate_files (translation (0, 0, 6)) eye4)) compare_transforms ''out'' = Some (Inr (VBool True)) \<and>
   result (init_bbreg_wf 9 1) (axis_lib (candidate_files (translation (0, 0, 6)) eye4)) select_transform ''out'' = Some (Inr (bbreg_fallback ''out_lta_file'')) \<and>
   result (init_bbreg_wf 9 1) (axis_lib (candidate_files (translation (0, 0, 6)) eye4)) select_report ''out'' = Some (Inr (bbreg_fallback ''out_report'')) \<and>
   result (init_fsl_bbr_wf 9 ''/usr/share/fsl'') (axis_lib (candidate_files (translation (0, 0, 1)) eye4)) compare_transforms ''out'' = Some (Inr (VBool False)) \<and>
   result (init_fsl_bbr_wf 9 ''/usr/share/fsl'') (axis_lib (candidate_files (translation (0, 0, 1)) eye4)) select_transform ''out'' = Some (Inr (fsl_refined ''out_matrix_file'')) \<and>
   result (init_fsl_bbr_wf 9 ''/usr/share/fsl'') (axis_lib (candidate_files (translation (0, 0, 1)) eye4)) select_report ''out'' = Some (Inr (fsl_refined ''out_report''))"
  using selection_shared_index[of 9 1 "''/usr/share/fsl''" "axis_lib (candidate_files (translation (0, 0, 6)) eye4)" True]
    selection_shared_index[of 9 1 "''/usr/share/fsl''" "axis_lib (candidate_files (translation (0, 0, 1)) eye4)" False]
  by (simp add: bbreg_result_selection bbreg_result_candidates fsl_result_selection fsl_result_candidates sample_verdicts)

text \<open>
  Claim C9.  In both workflows the refined registration (\<open>bbregister\<close>, \<open>flt_bbr\<close>) feeds
  \<open>in1\<close> of both merge nodes and \<open>test_mat\<close> of the comparison, the fallback registration
  (\<open>mri_coreg\<close>, \<open>flt_bbr_init\<close>) feeds \<open>in2\<close> of both and \<open>fallback_mat\<close>; the merged
  lists are the inputs of the two selectors.  In a run the candidate lists hold the
  refined candidate at index 0 and the fallback at index 1, and the comparison is
  \<open>compare_xforms\<close> on these same two transforms.
\<close>

theorem candidate_ordering:
  "source (init_bbreg_wf dof nt) transforms ''in1'' = Some (bbregister, ''out_lta_file'') \<and>
   source (init_bbreg_wf dof nt) transforms ''in2'' = Some (mri_coreg, ''out_lta_file'') \<and>
   source (init_bbreg_wf dof nt) reports ''in1'' = Some (bbregister, ''out_report'') \<and>
   source (init_bbreg_wf dof nt) reports ''in2'' = Some (mri_coreg, ''out_report'') \<and>
   source (init_bbreg_wf dof nt) compare_transforms ''test_mat'' = Some (bbregister, ''out_lta_file'') \<and>
   source (init_bbreg_wf dof nt) compare_transforms ''fallback_mat'' = Some (mri_coreg, ''out_lta_file'') \<and>
   source (init_bbreg_wf dof nt) select_transform ''inlist'' = Some (transforms, ''out'') \<and>
   source (init_bbreg_wf dof nt) select_report ''inlist'' = Some (reports, ''out'') \<and>
   result (init_bbreg_wf dof nt) lib transforms ''out'' =
     Some (Inr (VList [bbreg_refined ''out_lta_file'', bbreg_fallback ''out_lta_file''])) \<and>
   result (init_bbreg_wf dof nt) lib reports ''out'' =
     Some (Inr (VList [bbreg_refined ''out_report'', bbreg_fallback ''out_report''])) \<and>
   result (init_bbreg_wf dof nt) lib bbregister f = Some (Inr (bbreg_refined f)) \<and>
   result (init_bbreg_wf dof nt) lib mri_coreg f = Some (Inr (bbreg_fallback f)) \<and>
   result (init_bbreg_wf dof nt) lib compare_transforms ''out'' =
     (case fst (compare_xforms lib (bbreg_refined ''out_lta_file'') (bbreg_fallback ''out_lta_file'') []) of
        Inl e \<Rightarrow> Some (Inl e) | Inr b \<Rightarrow> Some (Inr (VBool b))) \<and>
   source (init_fsl_bbr_wf dof fsldir) transforms ''in1'' = Some (flt_bbr, ''out_matrix_file'') \<and>
   source (init_fsl_bbr_wf dof fsldir) transforms ''in2'' = Some (flt_bbr_init, ''out_matrix_file'') \<and>
   source (init_fsl_bbr_wf dof fsldir) reports ''in1'' = Some (flt_bbr, ''out_report'') \<and>
   source (init_fsl_bbr_wf dof fsldir) reports ''in2'' = Some (flt_bbr_init, ''out_report'') \<and>
   source (init_fsl_bbr_wf dof fsldir) compare_transforms ''test_mat'' = Some (flt_bbr, ''out_matrix_file'') \<and>
   source (init_fsl_bbr_wf dof fsldir) compare_transforms ''fallback_mat'' = Some (flt_bbr_init, ''out_matrix_file'') \<and>
   source (init_fsl_bbr_wf dof fsldir) select_transform ''inlist'' = Some (transforms, ''out'') \<and>
   source (init_fsl_bbr_wf dof fsldir) select_report ''inlist'' = Some (reports, ''out'') \<and>
   result (init_fsl_bbr_wf dof fsldir) lib transforms ''out'' =
     Some (Inr (VList [fsl_refined ''out_matrix_file'', fsl_fallback ''out_matrix_file''])) \<and>
   result (init_fsl_bbr_wf dof fsldir) lib reports ''out'' =
     Some (Inr (VList [fsl_refined ''out_report'', fsl_fallback ''out_report''])) \<and>
   result (init_fsl_bbr_wf dof fsldir) lib flt_bbr f = Some (Inr (fsl_refined f)) \<and>
   result (init_fsl_bbr_wf dof fsldir) lib flt_bbr_init f = Some (Inr (fsl_fallback f)) \<and>
   result (init_fsl_bbr_wf dof fsldir) lib compare_transforms ''out'' =
     (case fst (compare_xforms lib (fsl_refined ''out_matrix_file'') (fsl_fallback ''out_matrix_file'') []) of
        Inl e \<Rightarrow> Some (Inl e) | Inr b \<Rightarrow> Some (Inr (VBool b)))"
proof -
  have s: "source (init_bbreg_wf dof nt) transforms ''in1'' = Some (bbregister, ''out_lta_file'')"
    "source (init_bbreg_wf dof nt) transforms ''in2'' = Some (mri_coreg, ''out_lta_file'')"
    "source (init_bbreg_wf dof nt) reports ''in1'' = Some (bbregister, ''out_report'')"
    "source (init_bbreg_wf dof nt) reports ''in2'' = Some (mri_coreg, ''out_report'')"
    "source (init_bbreg_wf dof nt) compare_transforms ''test_mat'' = Some (bbregister, ''out_lta_file'')"
    "source (init_bbreg_wf dof nt) compare_transforms ''fallback_mat'' = Some (mri_coreg, ''out_lta_file'')"
    "source (init_bbreg_wf dof nt) select_transform ''inlist'' = Some (transforms, ''out'')"
    "source (init_bbreg_wf dof nt) select_report ''inlist'' = Some (reports, ''out'')"
    by (simp_all add: source_def init_bbreg_wf_def)
  have t: "source (init_fsl_bbr_wf dof fsldir) transforms ''in1'' = Some (flt_bbr, ''out_matrix_file'')"
    "source (init_fsl_bbr_wf dof fsldir) transforms ''in2'' = Some (flt_bbr_init, ''out_matrix_file'')"
    "source (init_fsl_bbr_wf dof fsldir) reports ''in1'' = Some (flt_bbr, ''out_report'')"
    "source (init_fsl_bbr_wf dof fsldir) reports ''in2'' = Some (flt_bbr_init, ''out_report'')"
    "source (init_fsl_bbr_wf dof fsldir) compare_transforms ''test_mat'' = Some (flt_bbr, ''out_matrix_file'')"
    "source (init_fsl_bbr_wf dof fsldir) compare_transforms ''fallback_mat'' = Some (flt_bbr_init, ''out_matrix_file'')"
    "source (init_fsl_bbr_wf dof fsldir) select_transform ''inlist'' = Some (transforms, ''out'')"
    "source (init_fsl_bbr_wf dof fsldir) select_report ''inlist'' = Some (reports, ''out'')"
    by (simp_all add: source_def init_fsl_bbr_wf_def)
  show ?thesis
    unfolding s t bbreg_result_candidates fsl_result_candidates bbreg_result_selection fsl_result_selection
      bbreg_verdict_def fsl_verdict_def
    by simp
qed

lemma bbreg_result_outputs:
  "result (init_bbreg_wf dof nt) lib outputnode ''itk_bold_to_t1'' =
     (case bbreg_verdict lib of Inl e \<Rightarrow> Some (Inl e) | Inr b \<Rightarrow> Some (Inr (Produced fsl2itk_fwd ''itk_transform'' [(''reference_file'', Given inputnode ''t1_brain''), (''source_file'', Given inputnode ''in_file''), (''transform_file'', Produced lta2fsl_fwd ''out_fsl'' [(''in_lta'', Produced lta_concat ''out_file'' [(''in_lta2'', Given inputnode ''t1_2_fsnative_reverse_transform''), (''in_lta1'', (if b then bbreg_fallback ''out_lta_file'' else bbreg_refined ''out_lta_file''))])])])))"
  "result (init_bbreg_wf dof nt) lib outputnode ''itk_t1_to_bold'' =
     (case bbreg_verdict lib of Inl e \<Rightarrow> Some (Inl e) | Inr b \<Rightarrow> Some (Inr (Produced fsl2itk_inv ''itk_transform'' [(''reference_file'', Given inputnode ''in_file''), (''source_file'', Given inputnode ''t1_brain''), (''transform_file'', Produced lta2fsl_inv ''out_fsl'' [(''in_lta'', Produced lta_concat ''out_file'' [(''in_lta2'', Given inputnode ''t1_2_fsnative_reverse_transform''), (''in_lta1'', (if b then bbreg_fallback ''out_lta_file'' else bbreg_refined ''out_lta_file''))])])])))"
  using bbreg_outputnode_itk_bold_to_t1[of dof nt lib 6] bbreg_outputnode_itk_t1_to_bold[of dof nt lib 6]
  by (simp_all add: result_def bbreg_length)

lemma fsl_result_outputs:
  "result (init_fsl_bbr_wf dof fsldir) lib outputnode ''itk_bold_to_t1'' =
     (case fsl_verdict lib of Inl e \<Rightarrow> Some (Inl e) | Inr b \<Rightarrow> Some (Inr (Produced fsl2itk_fwd ''itk_transform'' [(''reference_file'', Given inputnode ''t1_brain''), (''source_file'', Given inputnode ''in_file''), (''transform_file'', (if b then fsl_fallback ''out_matrix_file'' else fsl_refined ''out_matrix_file''))])))"
  "result (init_fsl_bbr_wf dof fsldir) lib outputnode ''itk_t1_to_bold'' =
     (case fsl_verdict lib of Inl e \<Rightarrow> Some (Inl e) | Inr b \<Rightarrow> Some (Inr (Produced fsl2itk_inv ''itk_transform'' [(''reference_file'', Given inputnode ''in_file''), (''source_file'', Given inputnode ''t1_brain''), (''transform_file'', Produced invt_bbr ''out_file'' [(''in_file'', (if b then fsl_fallback ''out_matrix_file'' else fsl_refined ''out_matrix_file''))])])))"
  using fsl_outputnode_itk_bold_to_t1[of dof fsldir lib 6] fsl_outputnode_itk_t1_to_bold[of dof fsldir lib 6]
  by (simp_all add: result_def fsl_length)

lemma bbreg_exports:
  "(result (init_bbreg_wf dof nt) lib select_transform ''out'' = Some (Inr s) \<longrightarrow>
      result (init_bbreg_wf dof nt) lib outputnode ''itk_bold_to_t1'' =
        Some (Inr (Produced fsl2itk_fwd ''itk_transform'' [(''reference_file'', Given inputnode ''t1_brain''), (''source_file'', Given inputnode ''in_file''), (''transform_file'', Produced lta2fsl_fwd ''out_fsl'' [(''in_lta'', Produced lta_concat ''out_file'' [(''in_lta2'', Given inputnode ''t1_2_fsnative_reverse_transform''), (''in_lta1'', s)])])])) \<and>
      result (init_bbreg_wf dof nt) lib outputnode ''itk_t1_to_bold'' =
        Some (Inr (Produced fsl2itk_inv ''itk_transform'' [(''reference_file'', Given inputnode ''in_file''), (''source_file'', Given inputnode ''t1_brain''), (''transform_file'', Produced lta2fsl_inv ''out_fsl'' [(''in_lta'', Produced lta_concat ''out_file'' [(''in_lta2'', Given inputnode ''t1_2_fsnative_reverse_transform''), (''in_lta1'', s)])])]))) \<and>
   (result (init_bbreg_wf dof nt) lib select_transform ''out'' = Some (Inl e) \<longrightarrow>
      result (init_bbreg_wf dof nt) lib outputnode ''itk_bold_to_t1'' = Some (Inl e) \<and>
      result (init_bbreg_wf dof nt) lib outputnode ''itk_t1_to_bold'' = Some (Inl e))"
  by (cases "bbreg_verdict lib") (auto simp: bbreg_result_selection bbreg_result_outputs)

lemma fsl_exports:
  "(result (init_fsl_bbr_wf dof fsldir) lib select_transform ''out'' = Some (Inr s) \<longrightarrow>
      result (init_fsl_bbr_wf dof fsldir) lib outputnode ''itk_bold_to_t1'' =
        Some (Inr (Produced fsl2itk_fwd ''itk_transform'' [(''reference_file'', Given inputnode ''t1_brain''), (''source_file'', Given inputnode ''in_file''), (''transform_file'', s)])) \<and>
      result (init_fsl_bbr_wf dof fsldir) lib outputnode ''itk_t1_to_bold'' =
        Some (Inr (Produced fsl2itk_inv ''itk_transform'' [(''reference_file'', Given inputnode ''in_file''), (''source_file'', Given inputnode ''t1_brain''), (''transform_file'', Produced invt_bbr ''out_file'' [(''in_file'', s)])]))) \<and>
   (result (init_fsl_bbr_wf dof fsldir) lib select_transform ''out'' = Some (Inl e) \<longrightarrow>
      result (init_fsl_bbr_wf dof fsldir) lib outputnode ''itk_bold_to_t1'' = Some (Inl e) \<and>
      result (init_fsl_bbr_wf dof fsldir) lib outputnode ''itk_t1_to_bold'' = Some (Inl e))"
  by (cases "fsl_verdict lib") (auto simp: fsl_result_selection fsl_result_outputs)

lemma inverting_interfaces:
  "map_of (interfaces (init_bbreg_wf dof nt)) lta2fsl_fwd = Some (External ''LTAConvert'' [(''out_fsl'', B True)]) \<and>
   map_of (interfaces (init_bbreg_wf dof nt)) lta2fsl_inv = Some (External ''LTAConvert'' [(''out_fsl'', B True), (''invert'', B True)]) \<and>
   map_of (interfaces (init_fsl_bbr_wf dof fsldir)) invt_bbr = Some (External ''ConvertXFM'' [(''invert_xfm'', B True)])"
  by (simp add: init_bbreg_wf_def init_fsl_bbr_wf_def)

text \<open>
  Claim C10.  In both workflows the outputs \<open>itk_bold_to_t1\<close> and \<open>itk_t1_to_bold\<close> are
  computed from the selected transform \<open>s\<close> and the workflow's inputs only: in
  \<open>init_bbreg_wf\<close> both from the one concatenation of \<open>s\<close> with the input transform,
  converted forward by \<open>lta2fsl_fwd\<close> and with \<open>invert\<close> by \<open>lta2fsl_inv\<close>; in
  \<open>init_fsl_bbr_wf\<close> the forward output from \<open>s\<close> and the inverse from \<open>s\<close> inverted by
  \<open>invt_bbr\<close>.  When the selection fails, so do both outputs, with the same exception.
\<close>

theorem exports_from_selected_transform:
  "(result (init_bbreg_wf dof nt) lib select_transform ''out'' = Some (Inr s) \<longrightarrow>
      result (init_bbreg_wf dof nt) lib outputnode ''itk_bold_to_t1'' =
        Some (Inr (Produced fsl2itk_fwd ''itk_transform'' [(''reference_file'', Given inputnode ''t1_brain''), (''source_file'', Given inputnode ''in_file''), (''transform_file'', Produced lta2fsl_fwd ''out_fsl'' [(''in_lta'', Produced lta_concat ''out_file'' [(''in_lta2'', Given inputnode ''t1_2_fsnative_reverse_transform''), (''in_lta1'', s)])])])) \<and>
      result (init_bbreg_wf dof nt) lib outputnode ''itk_t1_to_bold'' =
        Some (Inr (Produced fsl2itk_inv ''itk_transform'' [(''reference_file'', Given inputnode ''in_file''), (''source_file'', Given inputnode ''t1_brain''), (''transform_file'', Produced lta2fsl_inv ''out_fsl'' [(''in_lta'', Produced lta_concat ''out_file'' [(''in_lta2'', Given inputnode ''t1_2_fsnative_reverse_transform''), (''in_lta1'', s)])])]))) \<and>
   (result (init_bbreg_wf dof nt) lib select_transform ''out'' = Some (Inl e) \<longrightarrow>
      result (init_bbreg_wf dof nt) lib outputnode ''itk_bold_to_t1'' = Some (Inl e) \<and>
      result (init_bbreg_wf dof nt) lib outputnode ''itk_t1_to_bold'' = Some (Inl e)) \<and>
   (result (init_fsl_bbr_wf dof fsldir) lib select_transform ''out'' = Some (Inr s) \<longrightarrow>
      result (init_fsl_bbr_wf dof fsldir) lib outputnode ''itk_bold_to_t1'' =
        Some (Inr (Produced fsl2itk_fwd ''itk_transform'' [(''reference_file'', Given inputnode ''t1_brain''), (''source_file'', Given inputnode ''in_file''), (''transform_file'', s)])) \<and>
      result (init_fsl_bbr_wf dof fsldir) lib outputnode ''itk_t1_to_bold'' =
        Some (Inr (Produced fsl2itk_inv ''itk_transform'' [(''reference_file'', Given inputnode ''in_file''), (''source_file'', Given inputnode ''t1_brain''), (''transform_file'', Produced invt_bbr ''out_file'' [(''in_file'', s)])]))) \<and>
   (result (init_fsl_bbr_wf dof fsldir) lib select_transform ''out'' = Some (Inl e) \<longrightarrow>
      result (init_fsl_bbr_wf dof fsldir) lib outputnode ''itk_bold_to_t1'' = Some (Inl e) \<and>
      result (init_fsl_bbr_wf dof fsldir) lib outputnode ''itk_t1_to_bold'' = Some (Inl e)) \<and>
   map_of (interfaces (init_bbreg_wf dof nt)) lta2fsl_fwd = Some (External ''LTAConvert'' [(''out_fsl'', B True)]) \<and>
   map_of (interfaces (init_bbreg_wf dof nt)) lta2fsl_inv = Some (External ''LTAConvert'' [(''out_fsl'', B True), (''invert'', B True)]) \<and>
   map_of (interfaces (init_fsl_bbr_wf dof fsldir)) invt_bbr = Some (External ''ConvertXFM'' [(''invert_xfm'', B True)])"
  using bbreg_exports[of dof nt lib s e] fsl_exports[of dof fsldir lib s e] inverting_interfaces[of dof nt fsldir]
  by blast

theorem exports_from_selected_transform_witness:
  "result (init_bbreg_wf 9 1) (axis_lib (candidate_files (translation (0, 0, 6)) eye4)) select_transform ''out'' = Some (Inr (bbreg_fallback ''out_lta_file'')) \<and>
   result (init_bbreg_wf 9 1) (axis_lib (candidate_files (translation (0, 0, 6)) eye4)) outputnode ''itk_bold_to_t1'' =
     Some (Inr (Produced fsl2itk_fwd ''itk_transform'' [(''reference_file'', Given inputnode ''t1_brain''), (''source_file'', Given inputnode ''in_file''), (''transform_file'', Produced lta2fsl_fwd ''out_fsl'' [(''in_lta'', Produced lta_concat ''out_file'' [(''in_lta2'', Given inputnode ''t1_2_fsnative_reverse_transform''), (''in_lta1'', bbreg_fallback ''out_lta_file'')])])])) \<and>
   result (init_bbreg_wf 9 1) (axis_lib (candidate_files (translation (0, 0, 6)) eye4)) outputnode ''itk_t1_to_bold'' =
     Some (Inr (Produced fsl2itk_inv ''itk_transform'' [(''reference_file'', Given inputnode ''in_file''), (''source_file'', Given inputnode ''t1_brain''), (''transform_file'', Produced lta2fsl_inv ''out_fsl'' [(''in_lta'', Produced lta_concat ''out_file'' [(''in_lta2'', Given inputnode ''t1_2_fsnative_reverse_transform''), (''in_lta1'', bbreg_fallback ''out_lta_file'')])])])) \<and>
   result (init_fsl_bbr_wf 9 ''/usr/share/fsl'') (axis_lib (candidate_files (translation (0, 0, 1)) eye4)) select_transform ''out'' = Some (Inr (fsl_refined ''out_matrix_file'')) \<and>
   result (init_fsl_bbr_wf 9 ''/usr/share/fsl'') (axis_lib (candidate_files (translation (0, 0, 1)) eye4)) outputnode ''itk_bold_to_t1'' =
     Some (Inr (Produced fsl2itk_fwd ''itk_transform'' [(''reference_file'', Given inputnode ''t1_brain''), (''source_file'', Given inputnode ''in_file''), (''transform_file'', fsl_refined ''out_matrix_file'')])) \<and>
   result (init_fsl_bbr_wf 9 ''/usr/share/fsl'') (axis_lib (candidate_files (translation (0, 0, 1)) eye4)) outputnode ''itk_t1_to_bold'' =
     Some (Inr (Produced fsl2itk_inv ''itk_transform'' [(''reference_file'', Given inputnode ''in_file''), (''source_file'', Given inputnode ''t1_brain''), (''transform_file'', Produced invt_bbr ''out_file'' [(''in_file'', fsl_refined ''out_matrix_file'')])]))"
  using exports_from_selected_transform[of 9 1 "axis_lib (candidate_files (translation (0, 0, 6)) eye4)" "bbreg_fallback ''out_lta_file''" "LibraryError LinAlgError" "''/usr/share/fsl''"]
    exports_from_selected_transform[of 9 1 "axis_lib (candidate_files (translation (0, 0, 1)) eye4)" "fsl_refined ''out_matrix_file''" "LibraryError LinAlgError" "''/usr/share/fsl''"]
  by (simp add: bbreg_result_selection fsl_result_selection sample_verdicts)

end
